theory Spec2Isabelle
  imports Main
begin

section \<open>JavaScript values as the feature slices see them\<close>

text \<open>
  The slices are TypeScript whose events are typed \<open>any\<close>, so what they compute is fixed
  by JavaScript's run-time rules. A JSON value is a \<open>json\<close>; a JavaScript value that may be
  \<open>undefined\<close> is a \<open>json option\<close> with \<open>None\<close> for \<open>undefined\<close>. An object is the list of its
  own properties; reading a property that is not there gives \<open>undefined\<close>.
  A number of a payload is written \<open>JNum\<close> with the integer it denotes. What JavaScript
  computes from the values it reads is not fixed here: it is the parameter \<open>js\<close> below.
\<close>

datatype json =
    JNull
  | JBool bool
  | JNum int
  | JStr string
  | JArr "json list"
  | JObj "(string \<times> json) list"

type_synonym object = "(string \<times> json) list"

type_synonym jsval = "json option"

text \<open>\<open>obj.k\<close>: the property \<open>k\<close> of \<open>obj\<close>, \<open>undefined\<close> when absent.\<close>

definition get :: "object \<Rightarrow> string \<Rightarrow> jsval" where
  "get obj k = map_of obj k"

text \<open>JavaScript truthiness: \<open>undefined\<close>, \<open>null\<close>, \<open>false\<close>, \<open>0\<close> and \<open>''\<close> are falsy.\<close>

fun truthy :: "jsval \<Rightarrow> bool" where
  "truthy None = False"
| "truthy (Some JNull) = False"
| "truthy (Some (JBool b)) = b"
| "truthy (Some (JNum n)) = (n \<noteq> 0)"
| "truthy (Some (JStr s)) = (s \<noteq> [])"
| "truthy (Some (JArr xs)) = True"
| "truthy (Some (JObj kvs)) = True"

text \<open>\<open>a || b\<close>.\<close>

definition jsOr :: "jsval \<Rightarrow> jsval \<Rightarrow> jsval" where
  "jsOr a b = (if truthy a then a else b)"

text \<open>
  \<open>a === b\<close> on values read from two different objects: primitives compare by value,
  arrays and objects by identity, so two of them read from different events are never
  equal.
\<close>

fun strictEq :: "jsval \<Rightarrow> jsval \<Rightarrow> bool" where
  "strictEq (Some (JArr xs)) b = False"
| "strictEq (Some (JObj kvs)) b = False"
| "strictEq a b = (a = b)"

text \<open>
  An object literal \<open>{k1: v1, ...}\<close> as the store receives it: a property whose value is
  \<open>undefined\<close> is not serialised.
\<close>

fun objLit :: "(string \<times> jsval) list \<Rightarrow> object" where
  "objLit [] = []"
| "objLit ((k, None) # rest) = objLit rest"
| "objLit ((k, Some v) # rest) = (k, v) # objLit rest"

text \<open>\<open>{...obj, k: v}\<close>: a copy of \<open>obj\<close> whose property \<open>k\<close> is \<open>v\<close>.\<close>

definition withField :: "string \<Rightarrow> jsval \<Rightarrow> object \<Rightarrow> object" where
  "withField k v obj = objLit [(k, v)] @ filter (\<lambda>kv. fst kv \<noteq> k) obj"

text \<open>
  The arithmetic of a running balance is the language's, not the repository's: doubles
  that round, \<open>NaN\<close>, the coercion of \<open>null\<close>, booleans and strings, \<open>+\<close> that concatenates.
  The slices that compute a balance take it as the parameter \<open>js\<close>: \<open>'v\<close> is the type of the
  values a variable can hold while the program runs, \<open>jsValue js v\<close> is the value read from
  a property that holds \<open>v\<close>, \<open>jsAdd js x y\<close> is \<open>x + y\<close> and \<open>jsSub js x y\<close> is \<open>x - y\<close>.
  Nothing is assumed of the three.
\<close>

record 'v runtime =
  jsValue :: "jsval \<Rightarrow> 'v"
  jsAdd :: "'v \<Rightarrow> 'v \<Rightarrow> 'v"
  jsSub :: "'v \<Rightarrow> 'v \<Rightarrow> 'v"

section \<open>Events and their type tag\<close>

text \<open>
  An event object as a slice holds it: its data properties (\<open>event_type\<close>, \<open>accountId\<close>,
  \<open>amount\<close>, ...) and, when it is an instance of an event class, the method
  \<open>eventType()\<close> of the interface \<open>HasEventType\<close>; \<open>eventType = Some t\<close> says the method
  exists and returns \<open>t\<close>.
\<close>

record event =
  props :: object
  eventType :: "string option"

definition propOf :: "event \<Rightarrow> string \<Rightarrow> jsval" where
  "propOf e k = get (props e) k"

text \<open>
  The expression every slice classifies an event with:
  \<^verbatim>\<open>e.event_type || (e.eventType && e.eventType())\<close>.
\<close>

definition typeTag :: "event \<Rightarrow> jsval" where
  "typeTag e =
     jsOr (propOf e ''event_type'')
          (case eventType e of None \<Rightarrow> None | Some t \<Rightarrow> Some (JStr t))"

text \<open>\<^verbatim>\<open>(e.event_type || (e.eventType && e.eventType())) === t\<close>.\<close>

definition isType :: "event \<Rightarrow> string \<Rightarrow> bool" where
  "isType e t = strictEq (typeTag e) (Some (JStr t))"

section \<open>buildAccountState\<close>

text \<open>
  The function is defined three times in the sources (transfer-money, and both
  withdraw-money variants) with the same text.
\<close>

record 'v account_state =
  balance :: 'v
  currency :: jsval

text \<open>The predicate of \<^verbatim>\<open>events.find\<close>.\<close>

definition isOpeningOf :: "jsval \<Rightarrow> event \<Rightarrow> bool" where
  "isOpeningOf accountId e =
     (isType e ''BankAccountOpened'' \<and> strictEq (propOf e ''accountId'') accountId)"

text \<open>The body of the loop \<^verbatim>\<open>for (const event of events)\<close>.\<close>

definition applyEvent :: "'v runtime \<Rightarrow> jsval \<Rightarrow> event \<Rightarrow> 'v \<Rightarrow> event \<Rightarrow> 'v" where
  "applyEvent js accountId openingEvent currentBalance event =
     (if isType event ''MoneyDeposited'' \<and> strictEq (propOf event ''accountId'') accountId
           \<and> strictEq (propOf event ''currency'') (propOf openingEvent ''currency'')
      then jsAdd js currentBalance (jsValue js (propOf event ''amount''))
      else if isType event ''MoneyWithdrawn'' \<and> strictEq (propOf event ''accountId'') accountId
           \<and> strictEq (propOf event ''currency'') (propOf openingEvent ''currency'')
      then jsSub js currentBalance (jsValue js (propOf event ''amount''))
      else if isType event ''MoneyTransferred''
           \<and> strictEq (propOf event ''currency'') (propOf openingEvent ''currency'')
      then (if strictEq (propOf event ''fromAccountId'') accountId
            then jsSub js currentBalance (jsValue js (propOf event ''amount''))
            else if strictEq (propOf event ''toAccountId'') accountId
            then jsAdd js currentBalance (jsValue js (propOf event ''amount''))
            else currentBalance)
      else currentBalance)"

fun balanceLoop :: "'v runtime \<Rightarrow> jsval \<Rightarrow> event \<Rightarrow> 'v \<Rightarrow> event list \<Rightarrow> 'v" where
  "balanceLoop js accountId openingEvent currentBalance [] = currentBalance"
| "balanceLoop js accountId openingEvent currentBalance (event # events) =
     balanceLoop js accountId openingEvent
       (applyEvent js accountId openingEvent currentBalance event) events"

definition buildAccountState ::
  "'v runtime \<Rightarrow> event list \<Rightarrow> jsval \<Rightarrow> 'v account_state option" where
  "buildAccountState js events accountId =
     (case find (isOpeningOf accountId) events of
        None \<Rightarrow> None
      | Some openingEvent \<Rightarrow>
          Some \<lparr>balance = balanceLoop js accountId openingEvent
                            (jsValue js (propOf openingEvent ''initialDeposit'')) events,
                currency = propOf openingEvent ''currency''\<rparr>)"

section \<open>The event store\<close>

text \<open>
  Modelled from the spec: the store itself (the module \<open>eventstore\<close> with \<open>EventFilter\<close> and
  \<open>EventStore\<close>) is not among the sources; only the slices that call it and the README are.
  Every definition of this section follows sections 3 and 4 of the specification and the
  SQL the README prints. A filter is the value of section 3: the event types and the list
  of payload predicates.
\<close>

record event_filter =
  event_types :: "string list"
  payload_predicates :: "object list"

text \<open>
  Modelled from the spec: the missing class \<open>EventFilter\<close>, with
  \<open>createFilter(types, predicates?)\<close>, \<open>withPayloadPredicate(key, value)\<close> and
  \<open>withPayloadPredicates(obj)\<close> of section 4.2. A filter with no type or a blank one is
  refused as \<open>BadFilter\<close> by the operation that receives it.
\<close>

definition createFilter :: "string list \<Rightarrow> object list \<Rightarrow> event_filter" where
  "createFilter types predicates = \<lparr>event_types = types, payload_predicates = predicates\<rparr>"

definition withPayloadPredicate :: "string \<Rightarrow> jsval \<Rightarrow> event_filter \<Rightarrow> event_filter" where
  "withPayloadPredicate key val F =
     F\<lparr>payload_predicates := payload_predicates F @ [objLit [(key, val)]]\<rparr>"

definition withPayloadPredicates :: "object \<Rightarrow> event_filter \<Rightarrow> event_filter" where
  "withPayloadPredicates obj F = F\<lparr>payload_predicates := payload_predicates F @ [obj]\<rparr>"

definition blank :: "string \<Rightarrow> bool" where
  "blank t = (filter (\<lambda>c. c \<noteq> CHR '' '') t = [])"

definition badFilter :: "event_filter \<Rightarrow> bool" where
  "badFilter F = (event_types F = [] \<or> list_ex blank (event_types F))"

datatype store_error =
  BadFilter | BadEvent | ConcurrencyConflict | StoreUnavailable | StoreInternal

text \<open>
  Modelled from the spec: the table \<open>events\<close> of section 4.5, which the missing store
  keeps. The log is the list of its rows in insertion order.
\<close>

record row =
  sequence_number :: nat
  occurred_at :: nat
  event_type :: string
  payload :: object
  metadata :: object

text \<open>
  Modelled from the spec: the database's operator \<open>a @> b\<close>, the JSON containment of
  section 3 and the glossary. An object contains an object when it has every key of it
  with a value that contains the other's; an array contains an array when every listed
  element is contained in one of its elements; anything else must be equal.
\<close>

fun contains :: "json \<Rightarrow> json \<Rightarrow> bool" where
  "contains (JObj a) (JObj b) =
     (\<forall>(k, v) \<in> set b. case map_of a k of None \<Rightarrow> False | Some v' \<Rightarrow> contains v' v)"
| "contains (JArr a) (JArr b) = (\<forall>v \<in> set b. \<exists>v' \<in> set a. contains v' v)"
| "contains a b = (a = b)"

text \<open>
  Modelled from the spec: the query the missing store builds from a filter. The condition
  the README gives for it:
  \<^verbatim>\<open>WHERE event_type = ANY($1) AND (payload @> $2 OR payload @> $3 OR ...)\<close>,
  with no payload condition when the filter has no predicate.
\<close>

definition whereClause :: "event_filter \<Rightarrow> row \<Rightarrow> bool" where
  "whereClause F r =
     (event_type r \<in> set (event_types F) \<and>
      (payload_predicates F = [] \<or>
       list_ex (\<lambda>p. contains (JObj (payload r)) (JObj p)) (payload_predicates F)))"

definition selectRows :: "event_filter \<Rightarrow> row list \<Rightarrow> row list" where
  "selectRows F log = sort_key sequence_number (filter (whereClause F) log)"

text \<open>\<^verbatim>\<open>COALESCE(MAX(sequence_number), 0)\<close> over the rows the filter selects.\<close>

definition maxSeq :: "event_filter \<Rightarrow> row list \<Rightarrow> nat" where
  "maxSeq F log = foldr max (map sequence_number (filter (whereClause F) log)) 0"

text \<open>
  Modelled from the spec: what the missing store makes of a row it returns (section 4.1
  and the way the slices read events). The payload's keys are properties of the event,
  beside the data property \<open>event_type\<close>; it has no method \<open>eventType()\<close>.
  \<open>queryResult\<close> is \<open>query(filter)\<close> of section 4.3.
\<close>

definition toEvent :: "row \<Rightarrow> event" where
  "toEvent r = \<lparr>props = (''event_type'', JStr (event_type r)) # payload r, eventType = None\<rparr>"

record query_result =
  events :: "event list"
  maxSequenceNumber :: nat

definition queryResult :: "event_filter \<Rightarrow> row list \<Rightarrow> store_error + query_result" where
  "queryResult F log =
     (if badFilter F then Inl BadFilter
      else Inr \<lparr>events = map toEvent (selectRows F log), maxSequenceNumber = maxSeq F log\<rparr>)"

text \<open>
  Modelled from the spec: the missing method
  \<open>append(filter, events, expectedMaxSequenceNumber?)\<close> of section 4.4, one atomic step
  on the log: the
  check of step 2, then the insertion of step 3, where a new event with no type tag or an
  empty one is refused as \<open>BadEvent\<close>. The type of a new row is what \<open>eventType()\<close> returns,
  its payload the event's properties; the rows get the next sequence numbers in the order
  given.
\<close>

definition badEvent :: "event \<Rightarrow> bool" where
  "badEvent e = (case eventType e of None \<Rightarrow> True | Some t \<Rightarrow> t = [])"

definition lastSeq :: "row list \<Rightarrow> nat" where
  "lastSeq log = foldr max (map sequence_number log) 0"

definition toRow :: "nat \<Rightarrow> nat \<Rightarrow> event \<Rightarrow> row" where
  "toRow n now e =
     \<lparr>sequence_number = n, occurred_at = now,
      event_type = (case eventType e of None \<Rightarrow> [] | Some t \<Rightarrow> t),
      payload = props e, metadata = []\<rparr>"

fun newRows :: "nat \<Rightarrow> nat \<Rightarrow> event list \<Rightarrow> row list" where
  "newRows n now [] = []"
| "newRows n now (e # es) = toRow n now e # newRows (Suc n) now es"

definition appendEvents ::
  "nat \<Rightarrow> event_filter \<Rightarrow> event list \<Rightarrow> nat option \<Rightarrow> row list \<Rightarrow> store_error + row list" where
  "appendEvents now F evs expectedMaxSequenceNumber log =
     (if badFilter F then Inl BadFilter
      else if (case expectedMaxSequenceNumber of
                 None \<Rightarrow> False
               | Some expected \<Rightarrow> maxSeq F log \<noteq> expected)
      then Inl ConcurrencyConflict
      else if list_ex badEvent evs then Inl BadEvent
      else Inr (log @ newRows (Suc (lastSeq log)) now evs))"

text \<open>
  Modelled from the spec: two calls \<open>append(F, evsA, s)\<close> and \<open>append(F, evsB, s)\<close> to
  the missing store that race. Each is one
  indivisible step (section 4.4), so an interleaving is one of the two orders in which the
  store serves them. \<open>serve\<close> gives the error of a call (\<open>None\<close> for success) and the log it
  leaves; \<open>race\<close> gives the outcome of the first call, of the second call, and the final
  log.
\<close>

definition serve ::
  "nat \<Rightarrow> event_filter \<Rightarrow> event list \<Rightarrow> nat \<Rightarrow> row list \<Rightarrow> store_error option \<times> row list" where
  "serve now F evs s log =
     (case appendEvents now F evs (Some s) log of
        Inl err \<Rightarrow> (Some err, log)
      | Inr log' \<Rightarrow> (None, log'))"

definition race ::
  "nat \<Rightarrow> event_filter \<Rightarrow> nat \<Rightarrow> event list \<Rightarrow> event list \<Rightarrow> row list
     \<Rightarrow> store_error option \<times> store_error option \<times> row list" where
  "race now F s evsFirst evsSecond log =
     (let (r1, log1) = serve now F evsFirst s log;
          (r2, log2) = serve now F evsSecond s log1
      in (r1, r2, log2))"

text \<open>A new event is in the scope of a filter when the row it becomes matches the filter.\<close>

definition inScope :: "event_filter \<Rightarrow> event \<Rightarrow> bool" where
  "inScope F e = whereClause F (toRow 0 0 e)"

text \<open>
  Modelled from the spec: the matching rule in the words of section 4.2. The type is one of the filter's, and the
  filter has no predicate or one of its predicates is a subset of the payload, every key
  of the predicate being in the payload with a value that contains the predicate's.
\<close>

definition jsonSubset :: "object \<Rightarrow> object \<Rightarrow> bool" where
  "jsonSubset p obj = list_all (\<lambda>kv. \<exists>v'. get obj (fst kv) = Some v' \<and> contains v' (snd kv)) p"

definition matchesFilter :: "event_filter \<Rightarrow> string \<Rightarrow> object \<Rightarrow> bool" where
  "matchesFilter F tag obj =
     (tag \<in> set (event_types F) \<and>
      (payload_predicates F = [] \<or> (\<exists>p \<in> set (payload_predicates F). jsonSubset p obj)))"

text \<open>
  The same rule with the subset read as "every key of the predicate is in the payload with
  a structurally equal value, recursively for nested objects" (\<open>subsetValue\<close>), which
  says nothing of arrays; \<open>arrayFree\<close> holds of a value with no array in it.
\<close>

fun subsetValue :: "json \<Rightarrow> json \<Rightarrow> bool" where
  "subsetValue (JObj a) (JObj b) =
     (\<forall>(k, v) \<in> set b. case map_of a k of None \<Rightarrow> False | Some v' \<Rightarrow> subsetValue v' v)"
| "subsetValue a b = (a = b)"

fun arrayFree :: "json \<Rightarrow> bool" where
  "arrayFree (JArr xs) = False"
| "arrayFree (JObj kvs) = (\<forall>(k, v) \<in> set kvs. arrayFree v)"
| "arrayFree v = True"

definition arrayFreeFilter :: "event_filter \<Rightarrow> bool" where
  "arrayFreeFilter F = list_all (\<lambda>p. arrayFree (JObj p)) (payload_predicates F)"

definition matchesEqual :: "event_filter \<Rightarrow> string \<Rightarrow> object \<Rightarrow> bool" where
  "matchesEqual F tag obj =
     (tag \<in> set (event_types F) \<and>
      (payload_predicates F = [] \<or>
       (\<exists>p \<in> set (payload_predicates F). subsetValue (JObj obj) (JObj p))))"

section \<open>What a slice is given\<close>

text \<open>
  The parameter \<open>eventStore: IEventStore\<close>: the two methods the slices call, over any store
  state \<open>'s\<close>. A call returns a value or throws (\<open>Inl\<close>); a call that throws leaves the
  state as it was. What \<open>query\<close> resolves to is either an array of events (the README's
  \<open>Promise<T[]>\<close>) or the record \<open>{events, maxSequenceNumber}\<close>.
\<close>

datatype exn = StoreError store_error | TypeError

datatype query_value = BareArray "event list" | ResultRecord query_result

record 's IEventStore =
  query :: "event_filter \<Rightarrow> 's \<Rightarrow> exn + query_value"
  append' :: "event_filter \<Rightarrow> event list \<Rightarrow> nat option \<Rightarrow> 's \<Rightarrow> exn + 's"

text \<open>\<open>await p\<close> followed by the rest of the function: a rejection ends the function.\<close>

definition await :: "exn + 'a \<Rightarrow> ('a \<Rightarrow> exn + 'b) \<Rightarrow> exn + 'b" where
  "await p k = (case p of Inl x \<Rightarrow> Inl x | Inr v \<Rightarrow> k v)"

text \<open>
  The value of \<open>query\<close> used as an array (\<open>.find\<close>, \<open>.filter\<close>, \<open>.map\<close>, \<open>[...v]\<close>): on the
  record these are not functions, or the value is not iterable, and JavaScript throws a
  \<open>TypeError\<close>.
\<close>

definition asArray :: "query_value \<Rightarrow> exn + event list" where
  "asArray v = (case v of BareArray es \<Rightarrow> Inr es | ResultRecord r \<Rightarrow> Inl TypeError)"

text \<open>
  The value of \<open>query\<close> used as a record (\<open>[...v.events]\<close>, \<open>v.maxSequenceNumber\<close>): an
  array has no property \<open>events\<close>, and spreading \<open>undefined\<close> throws a \<open>TypeError\<close>.
\<close>

definition asRecord :: "query_value \<Rightarrow> exn + query_result" where
  "asRecord v = (case v of ResultRecord r \<Rightarrow> Inr r | BareArray es \<Rightarrow> Inl TypeError)"

definition isArray :: "query_value \<Rightarrow> bool" where
  "isArray v = (case v of BareArray es \<Rightarrow> True | ResultRecord r \<Rightarrow> False)"

definition isRecord :: "query_value \<Rightarrow> bool" where
  "isRecord v = (case v of BareArray es \<Rightarrow> False | ResultRecord r \<Rightarrow> True)"

text \<open>The two stores of the previous section behind that interface, on the log.\<close>

definition storeAppend ::
  "nat \<Rightarrow> event_filter \<Rightarrow> event list \<Rightarrow> nat option \<Rightarrow> row list \<Rightarrow> exn + row list" where
  "storeAppend now F evs expected log =
     (case appendEvents now F evs expected log of
        Inl err \<Rightarrow> Inl (StoreError err)
      | Inr log' \<Rightarrow> Inr log')"

definition arrayStore :: "nat \<Rightarrow> (row list) IEventStore" where
  "arrayStore now =
     \<lparr>query = (\<lambda>F log. case queryResult F log of
                          Inl err \<Rightarrow> Inl (StoreError err)
                        | Inr r \<Rightarrow> Inr (BareArray (events r))),
      append' = storeAppend now\<rparr>"

definition recordStore :: "nat \<Rightarrow> (row list) IEventStore" where
  "recordStore now =
     \<lparr>query = (\<lambda>F log. case queryResult F log of
                          Inl err \<Rightarrow> Inl (StoreError err)
                        | Inr r \<Rightarrow> Inr (ResultRecord r)),
      append' = storeAppend now\<rparr>"

text \<open>
  The result of a command: \<open>{success: true, event}\<close> or
  \<open>{success: false, error: {type, message}}\<close>.
\<close>

record error =
  type :: string
  message :: string

datatype result = Success object | Failure error

text \<open>
  Modelled from the spec: the event classes (the modules \<open>events\<close> of the slices) are not
  among the sources. As the class the README prints, an instance holds the constructor's
  arguments as properties and its \<open>eventType()\<close> returns the class's tag.
\<close>

definition MoneyTransferredEvent ::
  "jsval \<Rightarrow> jsval \<Rightarrow> jsval \<Rightarrow> jsval \<Rightarrow> jsval \<Rightarrow> jsval \<Rightarrow> event" where
  "MoneyTransferredEvent fromAccountId toAccountId amount currency' transferId timestamp =
     \<lparr>props = objLit [(''fromAccountId'', fromAccountId), (''toAccountId'', toAccountId),
                       (''amount'', amount), (''currency'', currency'),
                       (''transferId'', transferId), (''timestamp'', timestamp)],
      eventType = Some ''MoneyTransferred''\<rparr>"

definition MoneyDepositedEvent :: "jsval \<Rightarrow> jsval \<Rightarrow> jsval \<Rightarrow> jsval \<Rightarrow> jsval \<Rightarrow> event" where
  "MoneyDepositedEvent accountId amount currency' depositId timestamp =
     \<lparr>props = objLit [(''accountId'', accountId), (''amount'', amount),
                       (''currency'', currency'), (''depositId'', depositId),
                       (''timestamp'', timestamp)],
      eventType = Some ''MoneyDeposited''\<rparr>"

definition MoneyWithdrawnEvent :: "jsval \<Rightarrow> jsval \<Rightarrow> jsval \<Rightarrow> jsval \<Rightarrow> jsval \<Rightarrow> event" where
  "MoneyWithdrawnEvent accountId amount currency' withdrawalId timestamp =
     \<lparr>props = objLit [(''accountId'', accountId), (''amount'', amount),
                       (''currency'', currency'), (''withdrawalId'', withdrawalId),
                       (''timestamp'', timestamp)],
      eventType = Some ''MoneyWithdrawn''\<rparr>"

definition BankAccountOpenedEvent ::
  "jsval \<Rightarrow> jsval \<Rightarrow> jsval \<Rightarrow> jsval \<Rightarrow> jsval \<Rightarrow> jsval \<Rightarrow> event" where
  "BankAccountOpenedEvent accountId customerName accountType initialDeposit currency' openedAt =
     \<lparr>props = objLit [(''accountId'', accountId), (''customerName'', customerName),
                       (''accountType'', accountType), (''initialDeposit'', initialDeposit),
                       (''currency'', currency'), (''openedAt'', openedAt)],
      eventType = Some ''BankAccountOpened''\<rparr>"

text \<open>
  Two expressions that every \<open>execute\<close> repeats. \<open>effectiveCommand\<close> is
  \<^verbatim>\<open>{...command, currency: command.currency || account.currency}\<close>; the events are the
  \<^verbatim>\<open>new ...Event(result.event.accountId, ...)\<close> built from the event of a successful
  result.
\<close>

definition effectiveCommand :: "object \<Rightarrow> jsval \<Rightarrow> object" where
  "effectiveCommand command accountCurrency =
     withField ''currency'' (jsOr (get command ''currency'') accountCurrency) command"

definition transferEventOf :: "object \<Rightarrow> event" where
  "transferEventOf ev =
     MoneyTransferredEvent (get ev ''fromAccountId'') (get ev ''toAccountId'')
       (get ev ''amount'') (get ev ''currency'') (get ev ''transferId'') (get ev ''timestamp'')"

definition depositEventOf :: "object \<Rightarrow> event" where
  "depositEventOf ev =
     MoneyDepositedEvent (get ev ''accountId'') (get ev ''amount'') (get ev ''currency'')
       (get ev ''depositId'') (get ev ''timestamp'')"

definition withdrawEventOf :: "object \<Rightarrow> event" where
  "withdrawEventOf ev =
     MoneyWithdrawnEvent (get ev ''accountId'') (get ev ''amount'') (get ev ''currency'')
       (get ev ''withdrawalId'') (get ev ''timestamp'')"

definition openEventOf :: "object \<Rightarrow> event" where
  "openEventOf ev =
     BankAccountOpenedEvent (get ev ''accountId'') (get ev ''customerName'')
       (get ev ''accountType'') (get ev ''initialDeposit'') (get ev ''currency'')
       (get ev ''openedAt'')"

section \<open>transfer-money\<close>

text \<open>
  The pure decision functions (\<open>processTransferCommand\<close> and its siblings, the modules
  \<open>core\<close>) are not among the sources: each \<open>execute\<close> takes its own as a parameter, a
  function that returns a result or throws. A command is the object the caller passes.
  \<open>getTransferState\<close> returns \<open>(fromAccount, toAccount, existingTransferIds)\<close>, an account
  being \<open>None\<close> for \<open>null\<close>.
\<close>

definition transferQueryFilter :: "jsval \<Rightarrow> jsval \<Rightarrow> event_filter" where
  "transferQueryFilter fromAccountId toAccountId =
     createFilter
       [''BankAccountOpened'', ''MoneyDeposited'', ''MoneyWithdrawn'', ''MoneyTransferred'']
       [objLit [(''accountId'', fromAccountId)],
        objLit [(''accountId'', toAccountId)],
        objLit [(''toAccountId'', fromAccountId)],
        objLit [(''fromAccountId'', toAccountId)]]"

definition getTransferState ::
  "'v runtime \<Rightarrow> 's IEventStore \<Rightarrow> jsval \<Rightarrow> jsval \<Rightarrow> 's
     \<Rightarrow> exn + ('v account_state option \<times> 'v account_state option \<times> jsval list)" where
  "getTransferState js eventStore fromAccountId toAccountId s =
     await (query eventStore (transferQueryFilter fromAccountId toAccountId) s) (\<lambda>v.
     await (asArray v) (\<lambda>allEvents.
       Inr (buildAccountState js allEvents fromAccountId,
            buildAccountState js allEvents toAccountId,
            map (\<lambda>e. propOf e ''transferId'')
                (filter (\<lambda>e. isType e ''MoneyTransferred'') allEvents))))"

definition transferAppendFilter :: "object \<Rightarrow> event_filter" where
  "transferAppendFilter command =
     withPayloadPredicate ''transferId'' (get command ''transferId'')
       (createFilter [''MoneyTransferred''] [])"

definition transfer_execute ::
  "'v runtime \<Rightarrow> 's IEventStore \<Rightarrow> (object \<Rightarrow> 'v \<Rightarrow> jsval list \<Rightarrow> exn + result) \<Rightarrow> object
     \<Rightarrow> 's \<Rightarrow> exn + (result \<times> 's)" where
  "transfer_execute js eventStore processTransferCommand command s =
     await (getTransferState js eventStore (get command ''fromAccountId'')
              (get command ''toAccountId'') s) (\<lambda>(fromAccount, toAccount, existingTransferIds).
       case fromAccount of
         None \<Rightarrow>
           Inr (Failure \<lparr>type = ''InsufficientFunds'', message = ''From account not found''\<rparr>, s)
       | Some fromAcc \<Rightarrow>
          (case toAccount of
             None \<Rightarrow>
               Inr (Failure \<lparr>type = ''InsufficientFunds'', message = ''To account not found''\<rparr>, s)
           | Some toAcc \<Rightarrow>
               await (processTransferCommand (effectiveCommand command (currency fromAcc))
                        (balance fromAcc) existingTransferIds) (\<lambda>result.
                 case result of
                   Failure err \<Rightarrow> Inr (result, s)
                 | Success ev \<Rightarrow>
                    (case append' eventStore (transferAppendFilter command)
                            [transferEventOf ev] None s of
                       Inl thrown \<Rightarrow>
                         Inr (Failure \<lparr>type = ''InsufficientFunds'',
                                       message = ''Failed to save transfer event''\<rparr>, s)
                     | Inr s' \<Rightarrow> Inr (result, s')))))"

section \<open>deposit-money\<close>

text \<open>
  \<open>getDepositState\<close> returns \<open>(account, existingDepositIds)\<close>; the account
  \<open>{currency}\<close> is the currency alone.
\<close>

definition depositQueryFilter :: "jsval \<Rightarrow> event_filter" where
  "depositQueryFilter accountId =
     withPayloadPredicates (objLit [(''accountId'', accountId)])
       (createFilter [''BankAccountOpened'', ''MoneyDeposited''] [])"

definition getDepositState ::
  "'s IEventStore \<Rightarrow> jsval \<Rightarrow> 's \<Rightarrow> exn + (jsval option \<times> jsval list)" where
  "getDepositState eventStore accountId s =
     await (query eventStore (depositQueryFilter accountId) s) (\<lambda>v.
     await (asArray v) (\<lambda>events.
       Inr (case find (\<lambda>e. isType e ''BankAccountOpened'') events of
              None \<Rightarrow> None
            | Some openingEvent \<Rightarrow> Some (propOf openingEvent ''currency''),
            map (\<lambda>e. propOf e ''depositId'')
                (filter (\<lambda>e. isType e ''MoneyDeposited'') events))))"

definition depositAppendFilter :: "object \<Rightarrow> event_filter" where
  "depositAppendFilter command =
     withPayloadPredicate ''accountId'' (get command ''accountId'')
       (createFilter [''MoneyDeposited''] [])"

definition deposit_execute ::
  "'s IEventStore \<Rightarrow> (object \<Rightarrow> jsval list \<Rightarrow> exn + result) \<Rightarrow> object \<Rightarrow> 's
     \<Rightarrow> exn + (result \<times> 's)" where
  "deposit_execute eventStore processDepositCommand command s =
     await (getDepositState eventStore (get command ''accountId'') s)
       (\<lambda>(account, existingDepositIds).
       case account of
         None \<Rightarrow> Inr (Failure \<lparr>type = ''InvalidAmount'', message = ''Account not found''\<rparr>, s)
       | Some accountCurrency \<Rightarrow>
           await (processDepositCommand (effectiveCommand command accountCurrency)
                    existingDepositIds) (\<lambda>result.
             case result of
               Failure err \<Rightarrow> Inr (result, s)
             | Success ev \<Rightarrow>
                (case append' eventStore (depositAppendFilter command)
                        [depositEventOf ev] None s of
                   Inl thrown \<Rightarrow>
                     Inr (Failure \<lparr>type = ''InvalidAmount'',
                                   message = ''Failed to save deposit event''\<rparr>, s)
                 | Inr s' \<Rightarrow> Inr (result, s'))))"

section \<open>withdraw-money\<close>

text \<open>
  The sources hold two variants of the slice. Both read the account with three queries;
  the first uses each result as an array and appends without an expected sequence number,
  the second uses each result as a record and appends with the largest of the three
  \<open>maxSequenceNumber\<close>. \<open>getWithdrawState\<close> returns \<open>(account, existingWithdrawalIds)\<close>;
  the second variant returns \<open>((account, existingWithdrawalIds), maxSequenceNumber)\<close>.
\<close>

definition accountEventsFilter :: "jsval \<Rightarrow> event_filter" where
  "accountEventsFilter accountId =
     withPayloadPredicates (objLit [(''accountId'', accountId)])
       (createFilter [''BankAccountOpened'', ''MoneyDeposited'', ''MoneyWithdrawn''] [])"

definition transferFromFilter :: "jsval \<Rightarrow> event_filter" where
  "transferFromFilter accountId =
     withPayloadPredicates (objLit [(''fromAccountId'', accountId)])
       (createFilter [''MoneyTransferred''] [])"

definition transferToFilter :: "jsval \<Rightarrow> event_filter" where
  "transferToFilter accountId =
     withPayloadPredicates (objLit [(''toAccountId'', accountId)])
       (createFilter [''MoneyTransferred''] [])"

definition getWithdrawState ::
  "'v runtime \<Rightarrow> 's IEventStore \<Rightarrow> jsval \<Rightarrow> 's
     \<Rightarrow> exn + ('v account_state option \<times> jsval list)" where
  "getWithdrawState js eventStore accountId s =
     await (query eventStore (accountEventsFilter accountId) s) (\<lambda>v1.
     await (query eventStore (transferFromFilter accountId) s) (\<lambda>v2.
     await (query eventStore (transferToFilter accountId) s) (\<lambda>v3.
     await (asArray v1) (\<lambda>accountEvents.
     await (asArray v2) (\<lambda>transferFromEvents.
     await (asArray v3) (\<lambda>transferToEvents.
       Inr (buildAccountState js (accountEvents @ transferFromEvents @ transferToEvents)
              accountId,
            map (\<lambda>e. propOf e ''withdrawalId'')
                (filter (\<lambda>e. isType e ''MoneyWithdrawn'') accountEvents))))))))"

definition withdrawAppendFilter :: "object \<Rightarrow> event_filter" where
  "withdrawAppendFilter command =
     withPayloadPredicate ''accountId'' (get command ''accountId'')
       (createFilter [''MoneyWithdrawn''] [])"

definition withdraw_execute ::
  "'v runtime \<Rightarrow> 's IEventStore \<Rightarrow> (object \<Rightarrow> 'v \<Rightarrow> jsval list \<Rightarrow> exn + result) \<Rightarrow> object
     \<Rightarrow> 's \<Rightarrow> exn + (result \<times> 's)" where
  "withdraw_execute js eventStore processWithdrawCommand command s =
     await (getWithdrawState js eventStore (get command ''accountId'') s)
       (\<lambda>(account, existingWithdrawalIds).
       case account of
         None \<Rightarrow>
           Inr (Failure \<lparr>type = ''InsufficientFunds'', message = ''Account not found''\<rparr>, s)
       | Some acc \<Rightarrow>
           await (processWithdrawCommand (effectiveCommand command (currency acc))
                    (balance acc) existingWithdrawalIds) (\<lambda>result.
             case result of
               Failure err \<Rightarrow> Inr (result, s)
             | Success ev \<Rightarrow>
                (case append' eventStore (withdrawAppendFilter command)
                        [withdrawEventOf ev] None s of
                   Inl thrown \<Rightarrow>
                     Inr (Failure \<lparr>type = ''InsufficientFunds'',
                                   message = ''Failed to save withdrawal event''\<rparr>, s)
                 | Inr s' \<Rightarrow> Inr (result, s'))))"

definition getWithdrawState2 ::
  "'v runtime \<Rightarrow> 's IEventStore \<Rightarrow> jsval \<Rightarrow> 's
     \<Rightarrow> exn + (('v account_state option \<times> jsval list) \<times> nat)" where
  "getWithdrawState2 js eventStore accountId s =
     await (query eventStore (accountEventsFilter accountId) s) (\<lambda>v1.
     await (query eventStore (transferFromFilter accountId) s) (\<lambda>v2.
     await (query eventStore (transferToFilter accountId) s) (\<lambda>v3.
     await (asRecord v1) (\<lambda>accountEventsResult.
     await (asRecord v2) (\<lambda>transferFromEventsResult.
     await (asRecord v3) (\<lambda>transferToEventsResult.
       Inr ((buildAccountState js
               (events accountEventsResult @ events transferFromEventsResult
                  @ events transferToEventsResult) accountId,
             map (\<lambda>e. propOf e ''withdrawalId'')
                 (filter (\<lambda>e. isType e ''MoneyWithdrawn'') (events accountEventsResult))),
            max (maxSequenceNumber accountEventsResult)
                (max (maxSequenceNumber transferFromEventsResult)
                     (maxSequenceNumber transferToEventsResult)))))))))"

definition withdrawAppendFilter2 :: "object \<Rightarrow> event_filter" where
  "withdrawAppendFilter2 command =
     createFilter
       [''BankAccountOpened'', ''MoneyDeposited'', ''MoneyWithdrawn'', ''MoneyTransferred'']
       [objLit [(''accountId'', get command ''accountId'')],
        objLit [(''fromAccountId'', get command ''accountId'')],
        objLit [(''toAccountId'', get command ''accountId'')]]"

definition withdraw_execute2 ::
  "'v runtime \<Rightarrow> 's IEventStore \<Rightarrow> (object \<Rightarrow> 'v \<Rightarrow> jsval list \<Rightarrow> exn + result) \<Rightarrow> object
     \<Rightarrow> 's \<Rightarrow> exn + (result \<times> 's)" where
  "withdraw_execute2 js eventStore processWithdrawCommand command s =
     await (getWithdrawState2 js eventStore (get command ''accountId'') s)
       (\<lambda>((account, existingWithdrawalIds), maxSequenceNumber).
       case account of
         None \<Rightarrow>
           Inr (Failure \<lparr>type = ''InsufficientFunds'', message = ''Account not found''\<rparr>, s)
       | Some acc \<Rightarrow>
           await (processWithdrawCommand (effectiveCommand command (currency acc))
                    (balance acc) existingWithdrawalIds) (\<lambda>result.
             case result of
               Failure err \<Rightarrow> Inr (result, s)
             | Success ev \<Rightarrow>
                (case append' eventStore (withdrawAppendFilter2 command)
                        [withdrawEventOf ev] (Some maxSequenceNumber) s of
                   Inl thrown \<Rightarrow>
                     Inr (Failure \<lparr>type = ''InsufficientFunds'',
                                   message = ''Failed to save withdrawal event''\<rparr>, s)
                 | Inr s' \<Rightarrow> Inr (result, s'))))"

section \<open>get-account\<close>

text \<open>
  The view of an account: three queries with the filters of withdraw-money (the same
  three expressions), each result used as an array, the first
  \<open>BankAccountOpened\<close> event among their results, and a balance loop that, unlike
  \<open>buildAccountState\<close>, does not compare the \<open>accountId\<close> of deposits and withdrawals.
  The account \<open>{accountId, customerName, accountType, balance, currency, openedAt}\<close> is
  the tuple of these in that order, \<open>None\<close> for \<open>null\<close>.
\<close>

definition viewApplyEvent :: "'v runtime \<Rightarrow> jsval \<Rightarrow> event \<Rightarrow> 'v \<Rightarrow> event \<Rightarrow> 'v" where
  "viewApplyEvent js accountId openingEvent currentBalance event =
     (if isType event ''MoneyDeposited''
           \<and> strictEq (propOf event ''currency'') (propOf openingEvent ''currency'')
      then jsAdd js currentBalance (jsValue js (propOf event ''amount''))
      else if isType event ''MoneyWithdrawn''
           \<and> strictEq (propOf event ''currency'') (propOf openingEvent ''currency'')
      then jsSub js currentBalance (jsValue js (propOf event ''amount''))
      else if isType event ''MoneyTransferred''
           \<and> strictEq (propOf event ''currency'') (propOf openingEvent ''currency'')
      then (if strictEq (propOf event ''fromAccountId'') accountId
            then jsSub js currentBalance (jsValue js (propOf event ''amount''))
            else if strictEq (propOf event ''toAccountId'') accountId
            then jsAdd js currentBalance (jsValue js (propOf event ''amount''))
            else currentBalance)
      else currentBalance)"

fun viewBalanceLoop :: "'v runtime \<Rightarrow> jsval \<Rightarrow> event \<Rightarrow> 'v \<Rightarrow> event list \<Rightarrow> 'v" where
  "viewBalanceLoop js accountId openingEvent currentBalance [] = currentBalance"
| "viewBalanceLoop js accountId openingEvent currentBalance (event # rest) =
     viewBalanceLoop js accountId openingEvent
       (viewApplyEvent js accountId openingEvent currentBalance event) rest"

definition getAccountViewState ::
  "'v runtime \<Rightarrow> 's IEventStore \<Rightarrow> jsval \<Rightarrow> 's
     \<Rightarrow> exn + (jsval \<times> jsval \<times> jsval \<times> 'v \<times> jsval \<times> jsval) option" where
  "getAccountViewState js eventStore accountId s =
     await (query eventStore (accountEventsFilter accountId) s) (\<lambda>v1.
     await (query eventStore (transferFromFilter accountId) s) (\<lambda>v2.
     await (query eventStore (transferToFilter accountId) s) (\<lambda>v3.
     await (asArray v1) (\<lambda>accountEvents.
     await (asArray v2) (\<lambda>transferFromEvents.
     await (asArray v3) (\<lambda>transferToEvents.
       case find (\<lambda>e. isType e ''BankAccountOpened'')
              (accountEvents @ transferFromEvents @ transferToEvents) of
         None \<Rightarrow> Inr None
       | Some openingEvent \<Rightarrow>
           Inr (Some (propOf openingEvent ''accountId'',
                      propOf openingEvent ''customerName'',
                      propOf openingEvent ''accountType'',
                      viewBalanceLoop js accountId openingEvent
                        (jsValue js (propOf openingEvent ''initialDeposit''))
                        (accountEvents @ transferFromEvents @ transferToEvents),
                      propOf openingEvent ''currency'',
                      propOf openingEvent ''openedAt''))))))))"

definition getAccount_execute ::
  "'v runtime \<Rightarrow> 's IEventStore \<Rightarrow> object \<Rightarrow> 's
     \<Rightarrow> exn + (jsval \<times> jsval \<times> jsval \<times> 'v \<times> jsval \<times> jsval) option" where
  "getAccount_execute js eventStore q s =
     getAccountViewState js eventStore (get q ''accountId'') s"

section \<open>open-bank-account\<close>

text \<open>
  \<open>execute\<close> draws the account identifier with \<open>uuidv4()\<close>; here it is the parameter
  \<open>accountId\<close>. \<open>getOpenAccountState\<close> returns \<open>existingCustomerNames\<close>; its parameter
  \<open>customerName\<close> is not used.
\<close>

definition getOpenAccountState :: "'s IEventStore \<Rightarrow> jsval \<Rightarrow> 's \<Rightarrow> exn + jsval list" where
  "getOpenAccountState eventStore customerName s =
     await (query eventStore (createFilter [''BankAccountOpened''] []) s) (\<lambda>v.
     await (asArray v) (\<lambda>allEvents.
       Inr (map (\<lambda>e. propOf e ''customerName'') allEvents)))"

definition openAppendFilter :: "object \<Rightarrow> event_filter" where
  "openAppendFilter command =
     withPayloadPredicate ''customerName'' (get command ''customerName'')
       (createFilter [''BankAccountOpened''] [])"

definition open_execute ::
  "'s IEventStore \<Rightarrow> (object \<Rightarrow> jsval \<Rightarrow> jsval list \<Rightarrow> exn + result) \<Rightarrow> jsval \<Rightarrow> object \<Rightarrow> 's
     \<Rightarrow> exn + (result \<times> 's)" where
  "open_execute eventStore processOpenAccountCommand accountId command s =
     await (getOpenAccountState eventStore (get command ''customerName'') s)
       (\<lambda>existingCustomerNames.
       await (processOpenAccountCommand command accountId existingCustomerNames) (\<lambda>result.
         case result of
           Failure err \<Rightarrow> Inr (result, s)
         | Success ev \<Rightarrow>
            (case append' eventStore (openAppendFilter command)
                    [openEventOf ev] None s of
               Inl thrown \<Rightarrow>
                 Inr (Failure \<lparr>type = ''InvalidCustomerName'',
                               message = ''Failed to save account opening event''\<rparr>, s)
             | Inr s' \<Rightarrow> Inr (result, s'))))"

text \<open>
  \<open>processOpenAccountCommand\<close> as the README prints it. Its validation
  (\<open>validateOpenAccountCommand\<close>) is not among the sources and is the parameter \<open>validate\<close>;
  \<open>openedAt\<close> stands for \<open>new Date()\<close>. \<open>String.prototype.trim\<close> is the language's and is
  the parameter \<open>trim\<close>, of which nothing is assumed; called on anything but a string it
  throws a \<open>TypeError\<close>.
\<close>

definition processOpenAccountCommand ::
  "(object \<Rightarrow> error option) \<Rightarrow> (string \<Rightarrow> string) \<Rightarrow> jsval \<Rightarrow> object \<Rightarrow> jsval
     \<Rightarrow> jsval list option \<Rightarrow> exn + result" where
  "processOpenAccountCommand validate trim openedAt command accountId existingCustomerNames =
     (let commandWithDefaults =
            withField ''currency'' (jsOr (get command ''currency'') (Some (JStr ''USD'')))
              (withField ''accountType''
                 (jsOr (get command ''accountType'') (Some (JStr ''checking''))) command)
      in case validate commandWithDefaults of
           Some validationError \<Rightarrow> Inr (Failure validationError)
         | None \<Rightarrow>
            await (case existingCustomerNames of
                     None \<Rightarrow> Inr False
                   | Some names \<Rightarrow>
                      (case get commandWithDefaults ''customerName'' of
                         Some (JStr name) \<Rightarrow> Inr (Some (JStr (trim name)) \<in> set names)
                       | _ \<Rightarrow> Inl TypeError)) (\<lambda>nameExists.
              if nameExists
              then Inr (Failure \<lparr>type = ''InvalidCustomerName'',
                                 message = ''Customer name already exists''\<rparr>)
              else Inr (Success (objLit
                     [(''type'', Some (JStr ''BankAccountOpened'')),
                      (''accountId'', accountId),
                      (''customerName'', get commandWithDefaults ''customerName''),
                      (''accountType'', get commandWithDefaults ''accountType''),
                      (''initialDeposit'',
                         jsOr (get commandWithDefaults ''initialDeposit'') (Some (JNum 0))),
                      (''currency'', get commandWithDefaults ''currency''),
                      (''openedAt'', openedAt)]))))"

section \<open>The balance in the words of its description\<close>

text \<open>
  The four kinds of event that change the balance of account \<open>a\<close> whose first
  BankAccountOpened event is \<open>opened\<close>, and the balance as the description gives it: the
  initial deposit, to which the amount of every deposit and incoming transfer is added and
  from which the amount of every withdrawal and outgoing transfer is subtracted, one
  event after the other in the order of the events.
\<close>

definition isDeposit :: "jsval \<Rightarrow> event \<Rightarrow> event \<Rightarrow> bool" where
  "isDeposit a opened e =
     (isType e ''MoneyDeposited'' \<and> strictEq (propOf e ''accountId'') a
      \<and> strictEq (propOf e ''currency'') (propOf opened ''currency''))"

definition isWithdrawal :: "jsval \<Rightarrow> event \<Rightarrow> event \<Rightarrow> bool" where
  "isWithdrawal a opened e =
     (isType e ''MoneyWithdrawn'' \<and> strictEq (propOf e ''accountId'') a
      \<and> strictEq (propOf e ''currency'') (propOf opened ''currency''))"

definition isOutgoing :: "jsval \<Rightarrow> event \<Rightarrow> event \<Rightarrow> bool" where
  "isOutgoing a opened e =
     (isType e ''MoneyTransferred''
      \<and> strictEq (propOf e ''currency'') (propOf opened ''currency'')
      \<and> strictEq (propOf e ''fromAccountId'') a)"

definition isIncoming :: "jsval \<Rightarrow> event \<Rightarrow> event \<Rightarrow> bool" where
  "isIncoming a opened e =
     (isType e ''MoneyTransferred''
      \<and> strictEq (propOf e ''currency'') (propOf opened ''currency'')
      \<and> \<not> strictEq (propOf e ''fromAccountId'') a
      \<and> strictEq (propOf e ''toAccountId'') a)"

definition plusOrMinus :: "'v runtime \<Rightarrow> jsval \<Rightarrow> event \<Rightarrow> 'v \<Rightarrow> event \<Rightarrow> 'v" where
  "plusOrMinus js a opened b e =
     (if isDeposit a opened e \<or> isIncoming a opened e
      then jsAdd js b (jsValue js (propOf e ''amount''))
      else if isWithdrawal a opened e \<or> isOutgoing a opened e
      then jsSub js b (jsValue js (propOf e ''amount''))
      else b)"

definition netBalance :: "'v runtime \<Rightarrow> jsval \<Rightarrow> event \<Rightarrow> event list \<Rightarrow> 'v" where
  "netBalance js a opened evs =
     foldl (plusOrMinus js a opened) (jsValue js (propOf opened ''initialDeposit'')) evs"

section \<open>What execute does with a decision\<close>

text \<open>
  The part of each \<open>execute\<close> that follows the call of the decision function: a failure
  is returned as it is, the event of a success is appended and the success returned, and
  an append that throws becomes the failure of the \<open>catch\<close> block.
\<close>

definition transferOutcome :: "'s IEventStore \<Rightarrow> object \<Rightarrow> 's \<Rightarrow> result \<Rightarrow> exn + (result \<times> 's)" where
  "transferOutcome eventStore command s result =
     (case result of
        Failure err \<Rightarrow> Inr (result, s)
      | Success ev \<Rightarrow>
         (case append' eventStore (transferAppendFilter command)
                 [transferEventOf ev] None s of
            Inl thrown \<Rightarrow>
              Inr (Failure \<lparr>type = ''InsufficientFunds'',
                            message = ''Failed to save transfer event''\<rparr>, s)
          | Inr s' \<Rightarrow> Inr (result, s')))"

definition depositOutcome :: "'s IEventStore \<Rightarrow> object \<Rightarrow> 's \<Rightarrow> result \<Rightarrow> exn + (result \<times> 's)" where
  "depositOutcome eventStore command s result =
     (case result of
        Failure err \<Rightarrow> Inr (result, s)
      | Success ev \<Rightarrow>
         (case append' eventStore (depositAppendFilter command)
                 [depositEventOf ev] None s of
            Inl thrown \<Rightarrow>
              Inr (Failure \<lparr>type = ''InvalidAmount'',
                            message = ''Failed to save deposit event''\<rparr>, s)
          | Inr s' \<Rightarrow> Inr (result, s')))"

definition withdrawOutcome :: "'s IEventStore \<Rightarrow> object \<Rightarrow> 's \<Rightarrow> result \<Rightarrow> exn + (result \<times> 's)" where
  "withdrawOutcome eventStore command s result =
     (case result of
        Failure err \<Rightarrow> Inr (result, s)
      | Success ev \<Rightarrow>
         (case append' eventStore (withdrawAppendFilter command)
                 [withdrawEventOf ev] None s of
            Inl thrown \<Rightarrow>
              Inr (Failure \<lparr>type = ''InsufficientFunds'',
                            message = ''Failed to save withdrawal event''\<rparr>, s)
          | Inr s' \<Rightarrow> Inr (result, s')))"

definition withdrawOutcome2 ::
  "'s IEventStore \<Rightarrow> object \<Rightarrow> nat \<Rightarrow> 's \<Rightarrow> result \<Rightarrow> exn + (result \<times> 's)" where
  "withdrawOutcome2 eventStore command expected s result =
     (case result of
        Failure err \<Rightarrow> Inr (result, s)
      | Success ev \<Rightarrow>
         (case append' eventStore (withdrawAppendFilter2 command)
                 [withdrawEventOf ev] (Some expected) s of
            Inl thrown \<Rightarrow>
              Inr (Failure \<lparr>type = ''InsufficientFunds'',
                            message = ''Failed to save withdrawal event''\<rparr>, s)
          | Inr s' \<Rightarrow> Inr (result, s')))"

section \<open>An arithmetic and a trim for the examples\<close>

text \<open>
  The examples run the slices with the arithmetic of JavaScript on the values this
  section covers: the numbers that hold an integer, the two infinities and \<open>NaN\<close>,
  \<open>undefined\<close>, \<open>null\<close> and the booleans. \<open>Finite n\<close> is the double whose value is the
  integer \<open>n\<close> (the sign of a zero is not kept). \<open>roundDouble n\<close> is the double nearest to
  the integer \<open>n\<close>: \<open>n\<close> itself when its magnitude has at most 53 bits, else the nearer of
  the two doubles around it, the one with the even significand when they are equally
  near, and the infinity of its sign when that is \<open>2^1024\<close> or more (IEEE 754, round to
  nearest, ties to even). It is how a number of a payload is read and how a sum is
  rounded.
\<close>

datatype double = Finite int | PosInf | NegInf | NaN

fun bitLength :: "nat \<Rightarrow> nat" where
  "bitLength n = (if n = 0 then 0 else Suc (bitLength (n div 2)))"

declare bitLength.simps [simp del]

definition roundDouble :: "int \<Rightarrow> double" where
  "roundDouble n =
     (let a = nat \<bar>n\<bar>; k = bitLength a in
      if k \<le> 53 then Finite n
      else
        let sh = k - 53; q = a div 2 ^ sh; r = a mod 2 ^ sh; half = 2 ^ (sh - 1);
            m = (if half < r \<or> (r = half \<and> odd q) then q + 1 else q) * 2 ^ sh
        in if 2 ^ 1024 \<le> m then (if 0 < n then PosInf else NegInf)
           else Finite (sgn n * int m))"

fun dAdd :: "double \<Rightarrow> double \<Rightarrow> double" where
  "dAdd (Finite x) (Finite y) = roundDouble (x + y)"
| "dAdd NaN y = NaN"
| "dAdd x NaN = NaN"
| "dAdd PosInf NegInf = NaN"
| "dAdd NegInf PosInf = NaN"
| "dAdd PosInf y = PosInf"
| "dAdd x PosInf = PosInf"
| "dAdd NegInf y = NegInf"
| "dAdd x NegInf = NegInf"

fun dNeg :: "double \<Rightarrow> double" where
  "dNeg (Finite x) = Finite (- x)"
| "dNeg PosInf = NegInf"
| "dNeg NegInf = PosInf"
| "dNeg NaN = NaN"

text \<open>
  A value of the running program. \<open>VRef v\<close> is a string, array or object as it was read;
  where JavaScript computes with one (\<open>+\<close> concatenates strings, \<open>-\<close> parses them) the
  examples do not follow it and say \<open>NotComputed\<close>. Otherwise \<open>x + y\<close> and \<open>x - y\<close> convert
  both sides to numbers (\<open>undefined\<close> to \<open>NaN\<close>, \<open>null\<close> to 0, \<open>false\<close> to 0, \<open>true\<close> to 1) and
  add or subtract the doubles.
\<close>

datatype jsvalue = VUndefined | VNull | VBool bool | VNum double | VRef json | NotComputed

fun readValue :: "jsval \<Rightarrow> jsvalue" where
  "readValue None = VUndefined"
| "readValue (Some JNull) = VNull"
| "readValue (Some (JBool b)) = VBool b"
| "readValue (Some (JNum n)) = VNum (roundDouble n)"
| "readValue (Some v) = VRef v"

fun numericValue :: "jsvalue \<Rightarrow> double option" where
  "numericValue VUndefined = Some NaN"
| "numericValue VNull = Some (Finite 0)"
| "numericValue (VBool b) = Some (Finite (if b then 1 else 0))"
| "numericValue (VNum d) = Some d"
| "numericValue (VRef v) = None"
| "numericValue NotComputed = None"

definition plusValue :: "jsvalue \<Rightarrow> jsvalue \<Rightarrow> jsvalue" where
  "plusValue x y =
     (case (numericValue x, numericValue y) of
        (Some a, Some b) \<Rightarrow> VNum (dAdd a b)
      | _ \<Rightarrow> NotComputed)"

definition minusValue :: "jsvalue \<Rightarrow> jsvalue \<Rightarrow> jsvalue" where
  "minusValue x y =
     (case (numericValue x, numericValue y) of
        (Some a, Some b) \<Rightarrow> VNum (dAdd a (dNeg b))
      | _ \<Rightarrow> NotComputed)"

definition doubles :: "jsvalue runtime" where
  "doubles = \<lparr>jsValue = readValue, jsAdd = plusValue, jsSub = minusValue\<rparr>"

text \<open>
  \<open>String.prototype.trim\<close> as it acts on a string of ASCII characters, whose white space
  and line terminators are the tab, the line feed, the vertical tab, the form feed, the
  carriage return and the space.
\<close>

definition isSpace :: "char \<Rightarrow> bool" where
  "isSpace c = (c \<in> set [CHR '' '', CHR 0x09, CHR 0x0A, CHR 0x0B, CHR 0x0C, CHR 0x0D])"

definition trimAscii :: "string \<Rightarrow> string" where
  "trimAscii s = rev (dropWhile isSpace (rev (dropWhile isSpace s)))"

section \<open>A sample log\<close>

text \<open>
  Two accounts \<open>A\<close> (opened with 100 USD) and \<open>B\<close> (opened with 0 USD), then a deposit of
  50 to \<open>A\<close>, a withdrawal of 30 from \<open>A\<close>, a transfer of 20 from \<open>A\<close> to \<open>B\<close> and a transfer
  of 5 from \<open>B\<close> to \<open>A\<close>.
\<close>

definition sampleLog :: "row list" where
  "sampleLog =
     [\<lparr>sequence_number = 1, occurred_at = 0, event_type = ''BankAccountOpened'',
       payload = [(''accountId'', JStr ''A''), (''customerName'', JStr ''Alice''),
                  (''initialDeposit'', JNum 100), (''currency'', JStr ''USD'')],
       metadata = []\<rparr>,
      \<lparr>sequence_number = 2, occurred_at = 0, event_type = ''BankAccountOpened'',
       payload = [(''accountId'', JStr ''B''), (''customerName'', JStr ''Bob''),
                  (''initialDeposit'', JNum 0), (''currency'', JStr ''USD'')],
       metadata = []\<rparr>,
      \<lparr>sequence_number = 3, occurred_at = 0, event_type = ''MoneyDeposited'',
       payload = [(''accountId'', JStr ''A''), (''amount'', JNum 50),
                  (''currency'', JStr ''USD''), (''depositId'', JStr ''d1'')],
       metadata = []\<rparr>,
      \<lparr>sequence_number = 4, occurred_at = 0, event_type = ''MoneyWithdrawn'',
       payload = [(''accountId'', JStr ''A''), (''amount'', JNum 30),
                  (''currency'', JStr ''USD''), (''withdrawalId'', JStr ''w1'')],
       metadata = []\<rparr>,
      \<lparr>sequence_number = 5, occurred_at = 0, event_type = ''MoneyTransferred'',
       payload = [(''fromAccountId'', JStr ''A''), (''toAccountId'', JStr ''B''),
                  (''amount'', JNum 20), (''currency'', JStr ''USD''),
                  (''transferId'', JStr ''t1'')],
       metadata = []\<rparr>,
      \<lparr>sequence_number = 6, occurred_at = 0, event_type = ''MoneyTransferred'',
       payload = [(''fromAccountId'', JStr ''B''), (''toAccountId'', JStr ''A''),
                  (''amount'', JNum 5), (''currency'', JStr ''USD''),
                  (''transferId'', JStr ''t2'')],
       metadata = []\<rparr>]"

text \<open>
  An account opened with \<open>2^53\<close>, a deposit of 1 to it and a withdrawal of 1 from it.
\<close>

definition openedBig :: event where
  "openedBig =
     \<lparr>props = [(''event_type'', JStr ''BankAccountOpened''), (''accountId'', JStr ''A''),
               (''initialDeposit'', JNum 9007199254740992), (''currency'', JStr ''USD'')],
      eventType = None\<rparr>"

definition depositOne :: event where
  "depositOne =
     \<lparr>props = [(''event_type'', JStr ''MoneyDeposited''), (''accountId'', JStr ''A''),
               (''amount'', JNum 1), (''currency'', JStr ''USD'')],
      eventType = None\<rparr>"

definition withdrawOne :: event where
  "withdrawOne =
     \<lparr>props = [(''event_type'', JStr ''MoneyWithdrawn''), (''accountId'', JStr ''A''),
               (''amount'', JNum 1), (''currency'', JStr ''USD'')],
      eventType = None\<rparr>"

text \<open>Three events of one type, the third with a nested object (scenarios S3 and S6).\<close>

definition threeRows :: "row list" where
  "threeRows =
     [\<lparr>sequence_number = 1, occurred_at = 0, event_type = ''T'',
       payload = [(''x'', JNum 1)], metadata = []\<rparr>,
      \<lparr>sequence_number = 2, occurred_at = 0, event_type = ''T'',
       payload = [(''x'', JNum 2)], metadata = []\<rparr>,
      \<lparr>sequence_number = 3, occurred_at = 0, event_type = ''T'',
       payload = [(''x'', JNum 3), (''b'', JObj [(''c'', JNum 2), (''d'', JNull)])],
       metadata = []\<rparr>]"

text \<open>
  Commands without a currency, and decision functions for the examples: each accepts the
  command and copies its fields into the event, as the tests of the slices expect of the
  functions of the modules \<open>core\<close>.
\<close>

definition transferCommand :: object where
  "transferCommand =
     [(''fromAccountId'', JStr ''A''), (''toAccountId'', JStr ''B''), (''amount'', JNum 100),
      (''transferId'', JStr ''t3'')]"

definition depositCommand :: object where
  "depositCommand =
     [(''accountId'', JStr ''A''), (''amount'', JNum 10), (''depositId'', JStr ''d2'')]"

definition withdrawCommand :: object where
  "withdrawCommand =
     [(''accountId'', JStr ''A''), (''amount'', JNum 10), (''withdrawalId'', JStr ''w2'')]"

definition openCommand :: object where
  "openCommand = [(''customerName'', JStr ''Carol''), (''initialDeposit'', JNum 1)]"

definition acceptTransfer :: "object \<Rightarrow> 'v \<Rightarrow> jsval list \<Rightarrow> exn + result" where
  "acceptTransfer command bal existingTransferIds =
     Inr (Success (objLit
       [(''type'', Some (JStr ''MoneyTransferred'')),
        (''fromAccountId'', get command ''fromAccountId''),
        (''toAccountId'', get command ''toAccountId''),
        (''amount'', get command ''amount''),
        (''currency'', get command ''currency''),
        (''transferId'', get command ''transferId''),
        (''timestamp'', Some (JNum 0))]))"

definition acceptDeposit :: "object \<Rightarrow> jsval list \<Rightarrow> exn + result" where
  "acceptDeposit command existingDepositIds =
     Inr (Success (objLit
       [(''type'', Some (JStr ''MoneyDeposited'')),
        (''accountId'', get command ''accountId''),
        (''amount'', get command ''amount''),
        (''currency'', get command ''currency''),
        (''depositId'', get command ''depositId''),
        (''timestamp'', Some (JNum 0))]))"

definition acceptWithdraw :: "object \<Rightarrow> 'v \<Rightarrow> jsval list \<Rightarrow> exn + result" where
  "acceptWithdraw command bal existingWithdrawalIds =
     Inr (Success (objLit
       [(''type'', Some (JStr ''MoneyWithdrawn'')),
        (''accountId'', get command ''accountId''),
        (''amount'', get command ''amount''),
        (''currency'', get command ''currency''),
        (''withdrawalId'', get command ''withdrawalId''),
        (''timestamp'', Some (JNum 0))]))"

text \<open>A store whose \<open>append\<close> always throws, over the log.\<close>

definition failingStore :: "(row list) IEventStore" where
  "failingStore =
     \<lparr>query = query (arrayStore 0),
      append' = (\<lambda>F evs expected log. Inl (StoreError StoreUnavailable))\<rparr>"

definition failingRecordStore :: "(row list) IEventStore" where
  "failingRecordStore =
     \<lparr>query = query (recordStore 0),
      append' = (\<lambda>F evs expected log. Inl (StoreError StoreUnavailable))\<rparr>"

section \<open>Properties of the type tag and of buildAccountState\<close>

lemma strictEq_str: "strictEq v (Some (JStr t)) \<longleftrightarrow> v = Some (JStr t)"
  by (cases "(v, Some (JStr t))" rule: strictEq.cases) auto

lemma isType_iff: "isType e t \<longleftrightarrow> typeTag e = Some (JStr t)"
  by (simp add: isType_def strictEq_str)

lemmas eval_defs = propOf_def get_def typeTag_def jsOr_def isType_def toEvent_def
  isOpeningOf_def



text \<open>
  The body of the loop adds or subtracts as the description says. The four kinds exclude
  each other because an event has one tag, so the loop is the fold of \<open>plusOrMinus\<close> over
  the events, whatever the arithmetic is.
\<close>

lemma applyEvent_cases:
  "applyEvent js a opened b e =
     (if isDeposit a opened e then jsAdd js b (jsValue js (propOf e ''amount''))
      else if isWithdrawal a opened e then jsSub js b (jsValue js (propOf e ''amount''))
      else if isOutgoing a opened e then jsSub js b (jsValue js (propOf e ''amount''))
      else if isIncoming a opened e then jsAdd js b (jsValue js (propOf e ''amount''))
      else b)"
  by (auto simp: applyEvent_def isDeposit_def isWithdrawal_def isOutgoing_def
        isIncoming_def isType_iff)

lemma kinds_exclusive:
  "isDeposit a opened e \<Longrightarrow>
     \<not> isWithdrawal a opened e \<and> \<not> isOutgoing a opened e \<and> \<not> isIncoming a opened e"
  "isWithdrawal a opened e \<Longrightarrow> \<not> isOutgoing a opened e \<and> \<not> isIncoming a opened e"
  "isOutgoing a opened e \<Longrightarrow> \<not> isIncoming a opened e"
  by (auto simp: isDeposit_def isWithdrawal_def isOutgoing_def isIncoming_def isType_iff)

lemma applyEvent_plusOrMinus: "applyEvent js a opened b e = plusOrMinus js a opened b e"
proof -
  consider (dep) "isDeposit a opened e"
    | (wd) "\<not> isDeposit a opened e" "isWithdrawal a opened e"
    | (out) "\<not> isDeposit a opened e" "\<not> isWithdrawal a opened e" "isOutgoing a opened e"
    | (rest) "\<not> isDeposit a opened e" "\<not> isWithdrawal a opened e" "\<not> isOutgoing a opened e"
    by blast
  then show ?thesis
  proof cases
    case dep
    then show ?thesis by (simp add: applyEvent_cases plusOrMinus_def)
  next
    case wd
    with kinds_exclusive(2)[OF wd(2)] show ?thesis
      by (simp add: applyEvent_cases plusOrMinus_def)
  next
    case out
    with kinds_exclusive(3)[OF out(3)] show ?thesis
      by (simp add: applyEvent_cases plusOrMinus_def)
  next
    case rest
    then show ?thesis by (simp add: applyEvent_cases plusOrMinus_def)
  qed
qed

lemma balanceLoop_foldl:
  "balanceLoop js a opened b evs = foldl (plusOrMinus js a opened) b evs"
  by (induction evs arbitrary: b) (simp_all add: applyEvent_plusOrMinus)

lemma find_SomeD: "find P xs = Some x \<Longrightarrow> P x \<and> x \<in> set xs"
  by (induction xs) (auto split: if_splits)

lemma find_first:
  "P x \<Longrightarrow> \<forall>y \<in> set pre. \<not> P y \<Longrightarrow> find P (pre @ x # post) = Some x"
  by (induction pre) auto

text \<open>The arithmetic of the examples: an integer of at most 53 bits is a double.\<close>

lemma bitLength_le: "n < 2 ^ k \<Longrightarrow> bitLength n \<le> k"
proof (induction k arbitrary: n)
  case 0
  then show ?case by (simp add: bitLength.simps)
next
  case (Suc k)
  from Suc.prems have "n div 2 < 2 ^ k" by simp
  from Suc.IH[OF this] show ?case by (subst bitLength.simps) simp
qed

lemma roundDouble_small: "\<bar>n\<bar> < 2 ^ 53 \<Longrightarrow> roundDouble n = Finite n"
proof -
  assume "\<bar>n\<bar> < 2 ^ 53"
  then have "nat \<bar>n\<bar> < 2 ^ 53" by simp
  from bitLength_le[OF this] show ?thesis by (simp add: roundDouble_def Let_def)
qed

lemmas doubles_eval = doubles_def plusValue_def minusValue_def roundDouble_small

text \<open>
  Claim C8, as it is stated, gives the balance as a sum over the kinds of event, which has
  one value whatever the order of the events. The code adds and subtracts JavaScript
  numbers one event after the other, and each step rounds. For an account opened with
  \<open>2^53\<close>, two deposits of 1 leave the balance at \<open>2^53\<close> although \<open>2^53 + 1 + 1\<close> is a
  number a double holds; and one withdrawal and one deposit of 1 give \<open>2^53\<close> when the
  withdrawal comes first and \<open>2^53 - 1\<close> when the deposit comes first.
\<close>

theorem balance_depends_on_order_counterexample:
  "buildAccountState doubles [openedBig, depositOne, depositOne] (Some (JStr ''A'')) =
     Some \<lparr>balance = VNum (Finite 9007199254740992), currency = Some (JStr ''USD'')\<rparr>
   \<and> jsValue doubles (Some (JNum (9007199254740992 + 1 + 1))) = VNum (Finite 9007199254740994)
   \<and> buildAccountState doubles [openedBig, withdrawOne, depositOne] (Some (JStr ''A'')) =
       Some \<lparr>balance = VNum (Finite 9007199254740992), currency = Some (JStr ''USD'')\<rparr>
   \<and> buildAccountState doubles [openedBig, depositOne, withdrawOne] (Some (JStr ''A'')) =
       Some \<lparr>balance = VNum (Finite 9007199254740991), currency = Some (JStr ''USD'')\<rparr>"
proof -
  have up: "roundDouble 9007199254740993 = Finite 9007199254740992"
    by (simp add: roundDouble_def Let_def bitLength.simps)
  have two: "roundDouble 9007199254740994 = Finite 9007199254740994"
    by (simp add: roundDouble_def Let_def bitLength.simps)
  have top: "roundDouble 9007199254740992 = Finite 9007199254740992"
    by (simp add: roundDouble_def Let_def bitLength.simps)
  note ev = buildAccountState_def applyEvent_def eval_defs openedBig_def depositOne_def
    withdrawOne_def doubles_eval
  have a: "buildAccountState doubles [openedBig, depositOne, depositOne] (Some (JStr ''A'')) =
     Some \<lparr>balance = VNum (Finite 9007199254740992), currency = Some (JStr ''USD'')\<rparr>"
    by (simp add: ev up top)
  have b: "jsValue doubles (Some (JNum (9007199254740992 + 1 + 1))) =
             VNum (Finite 9007199254740994)"
    by (simp add: doubles_def two)
  have c: "buildAccountState doubles [openedBig, withdrawOne, depositOne] (Some (JStr ''A'')) =
       Some \<lparr>balance = VNum (Finite 9007199254740992), currency = Some (JStr ''USD'')\<rparr>"
    by (simp add: ev up top)
  have d: "buildAccountState doubles [openedBig, depositOne, withdrawOne] (Some (JStr ''A'')) =
       Some \<lparr>balance = VNum (Finite 9007199254740991), currency = Some (JStr ''USD'')\<rparr>"
    by (simp add: ev up top)
  from a b c d show ?thesis by simp
qed

text \<open>
  Claim C8, amended. \<open>buildAccountState evs a\<close> is \<open>null\<close> exactly when no event of \<open>evs\<close>
  is classified \<open>BankAccountOpened\<close> with \<open>accountId = a\<close>. Otherwise, with \<open>opened\<close> the
  first such event, it returns the currency of \<open>opened\<close> and the balance \<open>netBalance\<close>:
  the initial deposit of \<open>opened\<close>, to which, for the events of \<open>evs\<close> one after the other
  in their order, JavaScript's \<open>+\<close> adds the amount of each deposit to \<open>a\<close> in that
  currency and of each transfer in that currency to \<open>a\<close> that is not from \<open>a\<close>, and from
  which JavaScript's \<open>-\<close> subtracts the amount of each withdrawal from \<open>a\<close> in that
  currency and of each transfer in that currency from \<open>a\<close>. This holds for every
  arithmetic \<open>js\<close>.
\<close>

theorem buildAccountState_balance:
  "(buildAccountState js evs a = None \<longleftrightarrow> \<not> (\<exists>e \<in> set evs. isOpeningOf a e))
   \<and> (\<forall>pre opened post.
         evs = pre @ opened # post \<and> isOpeningOf a opened
           \<and> \<not> (\<exists>e \<in> set pre. isOpeningOf a e) \<longrightarrow>
         buildAccountState js evs a =
           Some \<lparr>balance = netBalance js a opened evs, currency = propOf opened ''currency''\<rparr>)"
proof (intro conjI allI impI)
  show "buildAccountState js evs a = None \<longleftrightarrow> \<not> (\<exists>e \<in> set evs. isOpeningOf a e)"
    by (auto simp: buildAccountState_def find_None_iff split: option.splits dest: find_SomeD)
next
  fix pre opened post
  assume h: "evs = pre @ opened # post \<and> isOpeningOf a opened
           \<and> \<not> (\<exists>e \<in> set pre. isOpeningOf a e)"
  then have "find (isOpeningOf a) evs = Some opened"
    using find_first[of "isOpeningOf a" opened pre post] by blast
  then show "buildAccountState js evs a =
           Some \<lparr>balance = netBalance js a opened evs, currency = propOf opened ''currency''\<rparr>"
    by (simp add: buildAccountState_def balanceLoop_foldl netBalance_def)
qed

theorem buildAccountState_balance_witness:
  "isOpeningOf (Some (JStr ''A'')) (toEvent (hd sampleLog))
   \<and> buildAccountState doubles (map toEvent sampleLog) (Some (JStr ''A'')) =
       Some \<lparr>balance = VNum (Finite 105), currency = Some (JStr ''USD'')\<rparr>
   \<and> netBalance doubles (Some (JStr ''A'')) (toEvent (hd sampleLog)) (map toEvent sampleLog)
       = VNum (Finite 105)
   \<and> buildAccountState doubles (map toEvent sampleLog) (Some (JStr ''C'')) = None"
proof -
  note net_defs = isDeposit_def isWithdrawal_def isOutgoing_def isIncoming_def
    plusOrMinus_def netBalance_def
  have none: "buildAccountState doubles (map toEvent sampleLog) (Some (JStr ''C'')) = None"
    using buildAccountState_balance[of doubles "map toEvent sampleLog" "Some (JStr ''C'')"]
    by (simp add: sampleLog_def eval_defs)
  have first: "isOpeningOf (Some (JStr ''A'')) (toEvent (hd sampleLog))"
    by (simp add: sampleLog_def eval_defs)
  have net: "netBalance doubles (Some (JStr ''A'')) (toEvent (hd sampleLog))
               (map toEvent sampleLog) = VNum (Finite 105)"
    by (simp add: sampleLog_def eval_defs net_defs doubles_eval)
  have "buildAccountState doubles (map toEvent sampleLog) (Some (JStr ''A'')) =
       Some \<lparr>balance = netBalance doubles (Some (JStr ''A'')) (toEvent (hd sampleLog))
                         (map toEvent sampleLog),
             currency = propOf (toEvent (hd sampleLog)) ''currency''\<rparr>"
    using first
      buildAccountState_balance[of doubles "map toEvent sampleLog" "Some (JStr ''A'')",
        THEN conjunct2, rule_format,
        of "[]" "toEvent (hd sampleLog)" "map toEvent (tl sampleLog)"]
    by (simp add: sampleLog_def)
  then have "buildAccountState doubles (map toEvent sampleLog) (Some (JStr ''A'')) =
       Some \<lparr>balance = VNum (Finite 105), currency = Some (JStr ''USD'')\<rparr>"
    by (simp add: net) (simp add: sampleLog_def eval_defs)
  with none first net show ?thesis by simp
qed

section \<open>Properties of the store\<close>

lemmas store_defs = queryResult_def badFilter_def blank_def selectRows_def whereClause_def
  maxSeq_def toEvent_def get_def appendEvents_def lastSeq_def toRow_def badEvent_def

lemma contains_scalar:
  "contains v' JNull \<longleftrightarrow> v' = JNull"
  "contains v' (JBool b) \<longleftrightarrow> v' = JBool b"
  "contains v' (JNum n) \<longleftrightarrow> v' = JNum n"
  "contains v' (JStr t) \<longleftrightarrow> v' = JStr t"
  by (cases v'; simp)+

lemma jsonSubset_contains: "jsonSubset p obj \<longleftrightarrow> contains (JObj obj) (JObj p)"
  by (auto simp: jsonSubset_def get_def list_all_iff split: option.splits)

lemma whereClause_matchesFilter:
  "whereClause F r \<longleftrightarrow> matchesFilter F (event_type r) (payload r)"
  by (simp add: whereClause_def matchesFilter_def jsonSubset_contains list_ex_iff)

lemma toEvent_same:
  "toEvent r = toEvent r' \<Longrightarrow> event_type r = event_type r' \<and> payload r = payload r'"
  by (simp add: toEvent_def)

lemma set_selectRows: "set (selectRows F log) = {r \<in> set log. whereClause F r}"
  by (simp add: selectRows_def)

lemma contains_arrayFree: "arrayFree b \<Longrightarrow> contains a b = subsetValue a b"
proof (induction a b rule: contains.induct)
  case (1 a b)
  have "(case map_of a k of None \<Rightarrow> False | Some v' \<Rightarrow> contains v' v)
          = (case map_of a k of None \<Rightarrow> False | Some v' \<Rightarrow> subsetValue v' v)"
    if kv: "(k, v) \<in> set b" for k v
  proof (cases "map_of a k")
    case None
    then show ?thesis by simp
  next
    case (Some v')
    from kv "1.prems" have "arrayFree v" by auto
    from "1.IH"[OF kv refl Some this] Some show ?thesis by simp
  qed
  then show ?case by auto
qed auto

lemma matchesFilter_arrayFree:
  assumes "arrayFreeFilter F"
  shows "matchesFilter F tag obj = matchesEqual F tag obj"
proof -
  have eq: "jsonSubset p obj = subsetValue (JObj obj) (JObj p)"
    if "p \<in> set (payload_predicates F)" for p
  proof -
    from assms that have "arrayFree (JObj p)"
      by (simp add: arrayFreeFilter_def list_all_iff)
    then show ?thesis by (simp only: jsonSubset_contains contains_arrayFree)
  qed
  show ?thesis unfolding matchesFilter_def matchesEqual_def using eq by blast
qed

text \<open>
  Claim C4, as it is stated, reads the JSON subset as: every key of the predicate is in
  the payload with a structurally equal value, recursively for nested objects
  (\<open>matchesEqual\<close>). The containment of section 3 matches an array by its elements: the
  predicate \<open>{a: [1]}\<close> selects the event whose payload is \<open>{a: [1, 2]}\<close>, where the two
  values of \<open>a\<close> are not equal.
\<close>

theorem query_array_predicate_counterexample:
  "queryResult \<lparr>event_types = [''T''], payload_predicates = [[(''a'', JArr [JNum 1])]]\<rparr>
     [\<lparr>sequence_number = 1, occurred_at = 0, event_type = ''T'',
       payload = [(''a'', JArr [JNum 1, JNum 2])], metadata = []\<rparr>]
     = Inr \<lparr>events = [\<lparr>props = [(''event_type'', JStr ''T''),
                                  (''a'', JArr [JNum 1, JNum 2])],
                         eventType = None\<rparr>],
            maxSequenceNumber = 1\<rparr>
   \<and> \<not> matchesEqual \<lparr>event_types = [''T''], payload_predicates = [[(''a'', JArr [JNum 1])]]\<rparr>
          ''T'' [(''a'', JArr [JNum 1, JNum 2])]"
  by (simp add: store_defs matchesEqual_def)

text \<open>
  Claim C4, amended. For a filter \<open>F\<close> the store accepts and a row \<open>r\<close> of the log, the
  event of \<open>r\<close> is among the events \<open>query(F)\<close> returns exactly when \<open>r\<close> matches \<open>F\<close> in
  the words of section 4.2 (\<open>matchesFilter\<close>): its type is one of \<open>F\<close>'s and \<open>F\<close> has no
  predicate or one of them is a JSON subset of the payload, every key of the predicate
  being in the payload with a value that contains the predicate's: an equal value for a
  scalar, recursively for a nested object, and for an array an array that holds, for
  every element listed, an element containing it. For a filter whose predicates hold no
  array, as those of every slice, the subset is the claim's: every key of the predicate
  is in the payload with a structurally equal value, recursively for nested objects
  (\<open>matchesEqual\<close>).
\<close>

theorem query_returns_matching:
  assumes "queryResult F log = Inr qr" and "r \<in> set log"
  shows "(toEvent r \<in> set (events qr) \<longleftrightarrow> matchesFilter F (event_type r) (payload r))
         \<and> (arrayFreeFilter F \<longrightarrow>
              (toEvent r \<in> set (events qr) \<longleftrightarrow> matchesEqual F (event_type r) (payload r)))"
proof -
  from assms(1) have ev: "events qr = map toEvent (selectRows F log)"
    by (auto simp: queryResult_def split: if_splits)
  have main: "toEvent r \<in> set (events qr) \<longleftrightarrow> matchesFilter F (event_type r) (payload r)"
  proof
    assume "toEvent r \<in> set (events qr)"
    then obtain r' where r': "r' \<in> set log" "whereClause F r'" "toEvent r' = toEvent r"
      by (auto simp: ev set_selectRows)
    from toEvent_same[OF r'(3)] r'(2) show "matchesFilter F (event_type r) (payload r)"
      by (simp add: whereClause_matchesFilter)
  next
    assume "matchesFilter F (event_type r) (payload r)"
    with assms(2) show "toEvent r \<in> set (events qr)"
      by (auto simp: ev set_selectRows whereClause_matchesFilter)
  qed
  then show ?thesis by (simp add: matchesFilter_arrayFree)
qed

theorem query_returns_matching_witness:
  "queryResult \<lparr>event_types = [''T''],
                payload_predicates = [[(''x'', JNum 1)], [(''b'', JObj [(''c'', JNum 2)])]]\<rparr>
     threeRows
     = Inr \<lparr>events = [toEvent (threeRows ! 0), toEvent (threeRows ! 2)],
            maxSequenceNumber = 3\<rparr>
   \<and> threeRows ! 0 \<in> set threeRows
   \<and> arrayFreeFilter \<lparr>event_types = [''T''],
                      payload_predicates = [[(''x'', JNum 1)], [(''b'', JObj [(''c'', JNum 2)])]]\<rparr>
   \<and> matchesEqual \<lparr>event_types = [''T''],
                    payload_predicates = [[(''x'', JNum 1)], [(''b'', JObj [(''c'', JNum 2)])]]\<rparr>
        (event_type (threeRows ! 0)) (payload (threeRows ! 0))
   \<and> toEvent (threeRows ! 0) \<in> set [toEvent (threeRows ! 0), toEvent (threeRows ! 2)]"
proof -
  have q: "queryResult \<lparr>event_types = [''T''],
                payload_predicates = [[(''x'', JNum 1)], [(''b'', JObj [(''c'', JNum 2)])]]\<rparr>
     threeRows
     = Inr \<lparr>events = [toEvent (threeRows ! 0), toEvent (threeRows ! 2)],
            maxSequenceNumber = 3\<rparr>"
    by (simp add: store_defs threeRows_def)
  have m: "threeRows ! 0 \<in> set threeRows"
    by (simp add: threeRows_def)
  have af: "arrayFreeFilter \<lparr>event_types = [''T''],
                      payload_predicates = [[(''x'', JNum 1)], [(''b'', JObj [(''c'', JNum 2)])]]\<rparr>"
    by (simp add: arrayFreeFilter_def)
  from query_returns_matching[OF q m] q m af show ?thesis
    by simp
qed

text \<open>Sequence numbers: the largest one a filter selects, and the ones of new rows.\<close>

lemma foldr_max_ge: "x \<in> set xs \<Longrightarrow> x \<le> foldr max xs (0::nat)"
  by (induction xs) auto

lemma foldr_max_le: "\<forall>x \<in> set xs. x \<le> b \<Longrightarrow> foldr max xs (0::nat) \<le> b"
  by (induction xs) auto

lemma maxSeq_le_lastSeq: "maxSeq F log \<le> lastSeq log"
  unfolding maxSeq_def lastSeq_def
  by (rule foldr_max_le) (auto intro: foldr_max_ge)

lemma maxSeq_ge: "r \<in> set log \<Longrightarrow> whereClause F r \<Longrightarrow> sequence_number r \<le> maxSeq F log"
  unfolding maxSeq_def by (rule foldr_max_ge) auto

lemma newRows_seq: "r \<in> set (newRows n now evs) \<Longrightarrow> n \<le> sequence_number r"
  by (induction evs arbitrary: n) (auto simp: toRow_def dest: Suc_leD)

lemma whereClause_toRow: "whereClause F (toRow n now e) = inScope F e"
  by (simp add: whereClause_def inScope_def toRow_def)

lemma newRows_inScope:
  "list_ex (inScope F) evs \<Longrightarrow> \<exists>r \<in> set (newRows n now evs). whereClause F r"
  by (induction evs arbitrary: n) (auto simp: whereClause_toRow)

lemma append_ok:
  assumes "\<not> badFilter F" and "maxSeq F log = s" and "\<not> list_ex badEvent evs"
  shows "appendEvents now F evs (Some s) log = Inr (log @ newRows (Suc (lastSeq log)) now evs)"
  using assms by (simp add: appendEvents_def)

lemma maxSeq_after_append:
  assumes "list_ex (inScope F) evs"
  shows "maxSeq F log < maxSeq F (log @ newRows (Suc (lastSeq log)) now evs)"
proof -
  from newRows_inScope[OF assms] obtain r where
    r: "r \<in> set (newRows (Suc (lastSeq log)) now evs)" "whereClause F r" by blast
  have "maxSeq F log \<le> lastSeq log" by (rule maxSeq_le_lastSeq)
  also have "lastSeq log < sequence_number r" using newRows_seq[OF r(1)] by simp
  also have "sequence_number r \<le> maxSeq F (log @ newRows (Suc (lastSeq log)) now evs)"
    using r by (intro maxSeq_ge) auto
  finally show ?thesis .
qed

text \<open>
  Claim C3. A call \<open>append(F, evs, expected)\<close> with a filter the store accepts, on a log
  where the largest sequence number of the events matching \<open>F\<close> is not \<open>expected\<close>, fails
  with \<open>ConcurrencyConflict\<close>; it returns no new log, and the log after the call is the log
  before it. The second withdraw-money variant is such a caller: what it passes and what
  it returns on a conflict are the lemmas \<open>getWithdrawState2_maxSequenceNumber\<close> and
  \<open>withdraw_execute2_conflict\<close> further down.
\<close>

theorem append_conflict_leaves_log:
  assumes "\<not> badFilter F" and "maxSeq F log \<noteq> expected"
  shows "appendEvents now F evs (Some expected) log = Inl ConcurrencyConflict
         \<and> serve now F evs expected log = (Some ConcurrencyConflict, log)"
  using assms by (simp add: appendEvents_def serve_def)

theorem append_conflict_leaves_log_witness:
  "\<not> badFilter \<lparr>event_types = [''BankAccountOpened''], payload_predicates = []\<rparr>
   \<and> maxSeq \<lparr>event_types = [''BankAccountOpened''], payload_predicates = []\<rparr> sampleLog = 2
   \<and> appendEvents 7 \<lparr>event_types = [''BankAccountOpened''], payload_predicates = []\<rparr>
        [\<lparr>props = [(''accountId'', JStr ''C'')], eventType = Some ''BankAccountOpened''\<rparr>]
        (Some 0) sampleLog = Inl ConcurrencyConflict
   \<and> serve 7 \<lparr>event_types = [''BankAccountOpened''], payload_predicates = []\<rparr>
        [\<lparr>props = [(''accountId'', JStr ''C'')], eventType = Some ''BankAccountOpened''\<rparr>]
        0 sampleLog = (Some ConcurrencyConflict, sampleLog)"
proof -
  have h1: "\<not> badFilter \<lparr>event_types = [''BankAccountOpened''], payload_predicates = []\<rparr>"
    by (simp add: store_defs)
  have h2: "maxSeq \<lparr>event_types = [''BankAccountOpened''], payload_predicates = []\<rparr>
              sampleLog = 2"
    by (simp add: store_defs sampleLog_def)
  then have h3: "maxSeq \<lparr>event_types = [''BankAccountOpened''], payload_predicates = []\<rparr>
                   sampleLog \<noteq> 0"
    by simp
  from append_conflict_leaves_log[OF h1 h3] h1 h2 show ?thesis
    by simp
qed

text \<open>
  Claim C1, as stated, fails. Both calls saw \<open>maxSequenceNumber = 0\<close> for the filter of
  type \<open>A\<close> on the empty log. The call served first appends an event of type \<open>B\<close>, which
  the filter does not select, so the check of the second call still finds \<open>0\<close>: both
  calls succeed and the log holds the events of both. Two calls with no event at all
  succeed as well.
\<close>

theorem race_both_succeed_counterexample:
  "\<not> badFilter \<lparr>event_types = [''A''], payload_predicates = []\<rparr>
   \<and> maxSeq \<lparr>event_types = [''A''], payload_predicates = []\<rparr> [] = 0
   \<and> race 7 \<lparr>event_types = [''A''], payload_predicates = []\<rparr> 0
        [\<lparr>props = [(''x'', JNum 1)], eventType = Some ''B''\<rparr>]
        [\<lparr>props = [(''x'', JNum 2)], eventType = Some ''A''\<rparr>] []
      = (None, None,
         [\<lparr>sequence_number = 1, occurred_at = 7, event_type = ''B'',
           payload = [(''x'', JNum 1)], metadata = []\<rparr>,
          \<lparr>sequence_number = 2, occurred_at = 7, event_type = ''A'',
           payload = [(''x'', JNum 2)], metadata = []\<rparr>])
   \<and> race 7 \<lparr>event_types = [''A''], payload_predicates = []\<rparr> 0 [] [] [] = (None, None, [])"
  by (simp add: store_defs serve_def race_def)

text \<open>
  Claim C1, amended. Two calls \<open>append(F, _, s)\<close> race on a log where the largest sequence
  number of the events matching \<open>F\<close> is \<open>s\<close>, and the store serves them one after the
  other in either order. If the events of the call served first are well formed and one
  of them is in the scope of \<open>F\<close>, that call succeeds and the other fails with
  \<open>ConcurrencyConflict\<close>; the final log is the old log followed by the rows of the first
  call, each with a sequence number above \<open>s\<close>, and holds no event of the other call.
\<close>

theorem race_one_winner:
  assumes "\<not> badFilter F" and "maxSeq F log = s"
    and "\<not> list_ex badEvent evsFirst" and "list_ex (inScope F) evsFirst"
  shows "race now F s evsFirst evsSecond log =
           (None, Some ConcurrencyConflict, log @ newRows (Suc (lastSeq log)) now evsFirst)
         \<and> (\<forall>r \<in> set (newRows (Suc (lastSeq log)) now evsFirst). s < sequence_number r)"
proof -
  let ?log1 = "log @ newRows (Suc (lastSeq log)) now evsFirst"
  have first: "serve now F evsFirst s log = (None, ?log1)"
    using append_ok[OF assms(1-3)] by (simp add: serve_def)
  have "maxSeq F ?log1 \<noteq> s"
    using maxSeq_after_append[OF assms(4), of log now] assms(2) by simp
  then have second: "serve now F evsSecond s ?log1 = (Some ConcurrencyConflict, ?log1)"
    using assms(1) by (simp add: appendEvents_def serve_def)
  have "\<forall>r \<in> set (newRows (Suc (lastSeq log)) now evsFirst). s < sequence_number r"
  proof
    fix r assume "r \<in> set (newRows (Suc (lastSeq log)) now evsFirst)"
    from newRows_seq[OF this] maxSeq_le_lastSeq[of F log] assms(2)
    show "s < sequence_number r" by simp
  qed
  with first second show ?thesis by (simp add: race_def)
qed

theorem race_one_winner_witness:
  "\<not> badFilter \<lparr>event_types = [''A''], payload_predicates = []\<rparr>
   \<and> maxSeq \<lparr>event_types = [''A''], payload_predicates = []\<rparr> [] = 0
   \<and> race 7 \<lparr>event_types = [''A''], payload_predicates = []\<rparr> 0
        [\<lparr>props = [(''x'', JNum 1)], eventType = Some ''A''\<rparr>]
        [\<lparr>props = [(''x'', JNum 2)], eventType = Some ''A''\<rparr>] []
      = (None, Some ConcurrencyConflict,
         [\<lparr>sequence_number = 1, occurred_at = 7, event_type = ''A'',
           payload = [(''x'', JNum 1)], metadata = []\<rparr>])"
proof -
  have h1: "\<not> badFilter \<lparr>event_types = [''A''], payload_predicates = []\<rparr>"
    by (simp add: store_defs)
  have h2: "maxSeq \<lparr>event_types = [''A''], payload_predicates = []\<rparr> [] = 0"
    by (simp add: store_defs)
  have h3: "\<not> list_ex badEvent [\<lparr>props = [(''x'', JNum 1)], eventType = Some ''A''\<rparr>]"
    by (simp add: store_defs)
  have h4: "list_ex (inScope \<lparr>event_types = [''A''], payload_predicates = []\<rparr>)
              [\<lparr>props = [(''x'', JNum 1)], eventType = Some ''A''\<rparr>]"
    by (simp add: store_defs inScope_def)
  from race_one_winner[OF h1 h2 h3 h4, of 7
         "[\<lparr>props = [(''x'', JNum 2)], eventType = Some ''A''\<rparr>]"]
    h1 h2 show ?thesis
    by (simp add: lastSeq_def toRow_def)
qed

section \<open>Properties of the slices\<close>

lemma await_Inr [simp]: "await (Inr v) k = k v"
  by (simp add: await_def)

lemma await_Inl [simp]: "await (Inl x) k = Inl x"
  by (simp add: await_def)

lemma asArray_simps [simp]:
  "asArray (BareArray es) = Inr es" "asArray (ResultRecord r) = Inl TypeError"
  by (simp_all add: asArray_def)

lemma asRecord_simps [simp]:
  "asRecord (ResultRecord r) = Inr r" "asRecord (BareArray es) = Inl TypeError"
  by (simp_all add: asRecord_def)

lemma objLit_Cons:
  "objLit ((k, v) # rest) = (case v of None \<Rightarrow> objLit rest | Some j \<Rightarrow> (k, j) # objLit rest)"
  by (cases v) simp_all

lemma get_objLit_absent: "k \<notin> fst ` set kvs \<Longrightarrow> get (objLit kvs) k = None"
  by (induction kvs rule: objLit.induct) (auto simp: get_def)

lemma get_objLit:
  "distinct (map fst kvs) \<Longrightarrow>
     get (objLit kvs) k = (case map_of kvs k of None \<Rightarrow> None | Some v \<Rightarrow> v)"
proof (induction kvs rule: objLit.induct)
  case 1
  show ?case by (simp add: get_def)
next
  case (2 k' rest)
  then show ?case using get_objLit_absent[of k' rest] by auto
next
  case (3 k' v rest)
  then show ?case by (auto simp: get_def)
qed

lemma get_withField: "get (withField k v obj) k = v"
  by (cases v) (auto simp: withField_def get_def map_of_eq_None_iff)

lemma get_effectiveCommand:
  "\<not> truthy (get command ''currency'') \<Longrightarrow> get (effectiveCommand command c) ''currency'' = c"
  by (simp add: effectiveCommand_def get_withField jsOr_def)

lemma event_currency:
  "propOf (transferEventOf ev) ''currency'' = get ev ''currency''"
  "propOf (depositEventOf ev) ''currency'' = get ev ''currency''"
  "propOf (withdrawEventOf ev) ''currency'' = get ev ''currency''"
  by (simp_all add: propOf_def transferEventOf_def depositEventOf_def withdrawEventOf_def
        MoneyTransferredEvent_def MoneyDepositedEvent_def MoneyWithdrawnEvent_def get_objLit
        split: option.splits)

lemma buildAccountState_found:
  "find (isOpeningOf a) evs = Some opened \<Longrightarrow>
     buildAccountState js evs a =
       Some \<lparr>balance = balanceLoop js a opened (jsValue js (propOf opened ''initialDeposit'')) evs,
             currency = propOf opened ''currency''\<rparr>"
  by (simp add: buildAccountState_def)

text \<open>
  Each \<open>execute\<close>, once the account is found, is the decision function run on the
  command with the account's currency, followed by the slice's way with its result.
\<close>

lemma outcome_is_tail:
  "transferOutcome eventStore command s =
     (\<lambda>result. case result of
        Failure err \<Rightarrow> Inr (result, s)
      | Success ev \<Rightarrow>
         (case append' eventStore (transferAppendFilter command)
                 [transferEventOf ev] None s of
            Inl thrown \<Rightarrow>
              Inr (Failure \<lparr>type = ''InsufficientFunds'',
                            message = ''Failed to save transfer event''\<rparr>, s)
          | Inr s' \<Rightarrow> Inr (result, s')))"
  "depositOutcome eventStore command s =
     (\<lambda>result. case result of
        Failure err \<Rightarrow> Inr (result, s)
      | Success ev \<Rightarrow>
         (case append' eventStore (depositAppendFilter command)
                 [depositEventOf ev] None s of
            Inl thrown \<Rightarrow>
              Inr (Failure \<lparr>type = ''InvalidAmount'',
                            message = ''Failed to save deposit event''\<rparr>, s)
          | Inr s' \<Rightarrow> Inr (result, s')))"
  "withdrawOutcome eventStore command s =
     (\<lambda>result. case result of
        Failure err \<Rightarrow> Inr (result, s)
      | Success ev \<Rightarrow>
         (case append' eventStore (withdrawAppendFilter command)
                 [withdrawEventOf ev] None s of
            Inl thrown \<Rightarrow>
              Inr (Failure \<lparr>type = ''InsufficientFunds'',
                            message = ''Failed to save withdrawal event''\<rparr>, s)
          | Inr s' \<Rightarrow> Inr (result, s')))"
  "withdrawOutcome2 eventStore command m s =
     (\<lambda>result. case result of
        Failure err \<Rightarrow> Inr (result, s)
      | Success ev \<Rightarrow>
         (case append' eventStore (withdrawAppendFilter2 command)
                 [withdrawEventOf ev] (Some m) s of
            Inl thrown \<Rightarrow>
              Inr (Failure \<lparr>type = ''InsufficientFunds'',
                            message = ''Failed to save withdrawal event''\<rparr>, s)
          | Inr s' \<Rightarrow> Inr (result, s')))"
  by (rule ext, simp add: transferOutcome_def depositOutcome_def withdrawOutcome_def
        withdrawOutcome2_def)+

lemma outcome_Success:
  "await x (transferOutcome eventStore command s) = Inr (Success ev, s') \<Longrightarrow> x = Inr (Success ev)"
  "await x (depositOutcome eventStore command s) = Inr (Success ev, s') \<Longrightarrow> x = Inr (Success ev)"
  "await x (withdrawOutcome eventStore command s) = Inr (Success ev, s') \<Longrightarrow> x = Inr (Success ev)"
  "await x (withdrawOutcome2 eventStore command m s) = Inr (Success ev, s')
     \<Longrightarrow> x = Inr (Success ev)"
  by (cases x; simp add: transferOutcome_def depositOutcome_def withdrawOutcome_def
        withdrawOutcome2_def split: result.splits sum.splits)+

lemma transfer_runs_decision:
  assumes q: "query eventStore (transferQueryFilter (get command ''fromAccountId'')
                 (get command ''toAccountId'')) s = Inr (BareArray evs)"
    and op: "find (isOpeningOf (get command ''fromAccountId'')) evs = Some opened"
    and to: "buildAccountState js evs (get command ''toAccountId'') = Some toAcc"
  shows "\<exists>b. transfer_execute js eventStore process command s =
           await (process (effectiveCommand command (propOf opened ''currency'')) b
                    (map (\<lambda>e. propOf e ''transferId'')
                         (filter (\<lambda>e. isType e ''MoneyTransferred'') evs)))
                 (transferOutcome eventStore command s)"
proof -
  note fa = buildAccountState_found[OF op, of js]
  let ?b = "balanceLoop js (get command ''fromAccountId'') opened
              (jsValue js (propOf opened ''initialDeposit'')) evs"
  have eq: "transfer_execute js eventStore process command s =
           await (process (effectiveCommand command (propOf opened ''currency'')) ?b
                    (map (\<lambda>e. propOf e ''transferId'')
                         (filter (\<lambda>e. isType e ''MoneyTransferred'') evs)))
                 (transferOutcome eventStore command s)"
    unfolding outcome_is_tail
    by (simp add: transfer_execute_def getTransferState_def q fa to)
  show ?thesis by (rule exI[of _ ?b]) (rule eq)
qed

lemma deposit_runs_decision:
  assumes q: "query eventStore (depositQueryFilter (get command ''accountId'')) s
                = Inr (BareArray evs)"
    and op: "find (\<lambda>e. isType e ''BankAccountOpened'') evs = Some opened"
  shows "deposit_execute eventStore process command s =
           await (process (effectiveCommand command (propOf opened ''currency''))
                    (map (\<lambda>e. propOf e ''depositId'')
                         (filter (\<lambda>e. isType e ''MoneyDeposited'') evs)))
                 (depositOutcome eventStore command s)"
  unfolding outcome_is_tail
  by (simp add: deposit_execute_def getDepositState_def q op)

lemma withdraw_runs_decision:
  assumes q: "query eventStore (accountEventsFilter (get command ''accountId'')) s
                = Inr (BareArray evs1)"
       "query eventStore (transferFromFilter (get command ''accountId'')) s
                = Inr (BareArray evs2)"
       "query eventStore (transferToFilter (get command ''accountId'')) s
                = Inr (BareArray evs3)"
    and op: "find (isOpeningOf (get command ''accountId'')) (evs1 @ evs2 @ evs3) = Some opened"
  shows "\<exists>b. withdraw_execute js eventStore process command s =
           await (process (effectiveCommand command (propOf opened ''currency'')) b
                    (map (\<lambda>e. propOf e ''withdrawalId'')
                         (filter (\<lambda>e. isType e ''MoneyWithdrawn'') evs1)))
                 (withdrawOutcome eventStore command s)"
proof -
  note fa = buildAccountState_found[OF op, of js]
  let ?b = "balanceLoop js (get command ''accountId'') opened
              (jsValue js (propOf opened ''initialDeposit'')) (evs1 @ evs2 @ evs3)"
  have eq: "withdraw_execute js eventStore process command s =
           await (process (effectiveCommand command (propOf opened ''currency'')) ?b
                    (map (\<lambda>e. propOf e ''withdrawalId'')
                         (filter (\<lambda>e. isType e ''MoneyWithdrawn'') evs1)))
                 (withdrawOutcome eventStore command s)"
    unfolding outcome_is_tail
    by (simp add: withdraw_execute_def getWithdrawState_def q fa)
  show ?thesis by (rule exI[of _ ?b]) (rule eq)
qed

lemma withdraw2_runs_decision:
  assumes q: "query eventStore (accountEventsFilter (get command ''accountId'')) s
                = Inr (ResultRecord r1)"
       "query eventStore (transferFromFilter (get command ''accountId'')) s
                = Inr (ResultRecord r2)"
       "query eventStore (transferToFilter (get command ''accountId'')) s
                = Inr (ResultRecord r3)"
    and op: "find (isOpeningOf (get command ''accountId''))
               (events r1 @ events r2 @ events r3) = Some opened"
  shows "\<exists>b. withdraw_execute2 js eventStore process command s =
           await (process (effectiveCommand command (propOf opened ''currency'')) b
                    (map (\<lambda>e. propOf e ''withdrawalId'')
                         (filter (\<lambda>e. isType e ''MoneyWithdrawn'') (events r1))))
                 (withdrawOutcome2 eventStore command
                    (max (maxSequenceNumber r1)
                         (max (maxSequenceNumber r2) (maxSequenceNumber r3))) s)"
proof -
  note fa = buildAccountState_found[OF op, of js]
  let ?b = "balanceLoop js (get command ''accountId'') opened
              (jsValue js (propOf opened ''initialDeposit'')) (events r1 @ events r2 @ events r3)"
  have eq: "withdraw_execute2 js eventStore process command s =
           await (process (effectiveCommand command (propOf opened ''currency'')) ?b
                    (map (\<lambda>e. propOf e ''withdrawalId'')
                         (filter (\<lambda>e. isType e ''MoneyWithdrawn'') (events r1))))
                 (withdrawOutcome2 eventStore command
                    (max (maxSequenceNumber r1)
                         (max (maxSequenceNumber r2) (maxSequenceNumber r3))) s)"
    unfolding outcome_is_tail
    by (simp add: withdraw_execute2_def getWithdrawState2_def q fa)
  show ?thesis by (rule exI[of _ ?b]) (rule eq)
qed

lemma transfer_decided:
  assumes q: "query eventStore (transferQueryFilter (get command ''fromAccountId'')
                 (get command ''toAccountId'')) s = Inr (BareArray evs)"
    and op: "find (isOpeningOf (get command ''fromAccountId'')) evs = Some opened"
    and ex: "transfer_execute js eventStore process command s = Inr (Success ev, s')"
  shows "\<exists>b ids. process (effectiveCommand command (propOf opened ''currency'')) b ids
                    = Inr (Success ev)"
proof (cases "buildAccountState js evs (get command ''toAccountId'')")
  case None
  note fa = buildAccountState_found[OF op, of js]
  have "transfer_execute js eventStore process command s =
          Inr (Failure \<lparr>type = ''InsufficientFunds'', message = ''To account not found''\<rparr>, s)"
    by (simp add: transfer_execute_def getTransferState_def q fa None)
  with ex show ?thesis by simp
next
  case (Some toAcc)
  from transfer_runs_decision[OF q op Some, of process] obtain b where
    "transfer_execute js eventStore process command s =
           await (process (effectiveCommand command (propOf opened ''currency'')) b
                    (map (\<lambda>e. propOf e ''transferId'')
                         (filter (\<lambda>e. isType e ''MoneyTransferred'') evs)))
                 (transferOutcome eventStore command s)" ..
  with ex have "await (process (effectiveCommand command (propOf opened ''currency'')) b
                    (map (\<lambda>e. propOf e ''transferId'')
                         (filter (\<lambda>e. isType e ''MoneyTransferred'') evs)))
                 (transferOutcome eventStore command s) = Inr (Success ev, s')" by simp
  from outcome_Success(1)[OF this] show ?thesis by (intro exI)
qed

lemma deposit_decided:
  assumes q: "query eventStore (depositQueryFilter (get command ''accountId'')) s
                = Inr (BareArray evs)"
    and op: "find (\<lambda>e. isType e ''BankAccountOpened'') evs = Some opened"
    and ex: "deposit_execute eventStore process command s = Inr (Success ev, s')"
  shows "\<exists>ids. process (effectiveCommand command (propOf opened ''currency'')) ids
                  = Inr (Success ev)"
proof -
  from deposit_runs_decision[OF q op, of process] ex
  have "await (process (effectiveCommand command (propOf opened ''currency''))
                    (map (\<lambda>e. propOf e ''depositId'')
                         (filter (\<lambda>e. isType e ''MoneyDeposited'') evs)))
                 (depositOutcome eventStore command s) = Inr (Success ev, s')" by simp
  from outcome_Success(2)[OF this] show ?thesis by (intro exI)
qed

lemma withdraw_decided:
  assumes q: "query eventStore (accountEventsFilter (get command ''accountId'')) s
                = Inr (BareArray evs1)"
       "query eventStore (transferFromFilter (get command ''accountId'')) s
                = Inr (BareArray evs2)"
       "query eventStore (transferToFilter (get command ''accountId'')) s
                = Inr (BareArray evs3)"
    and op: "find (isOpeningOf (get command ''accountId'')) (evs1 @ evs2 @ evs3) = Some opened"
    and ex: "withdraw_execute js eventStore process command s = Inr (Success ev, s')"
  shows "\<exists>b ids. process (effectiveCommand command (propOf opened ''currency'')) b ids
                    = Inr (Success ev)"
proof -
  from withdraw_runs_decision[OF q op, of js process] obtain b where
    "withdraw_execute js eventStore process command s =
           await (process (effectiveCommand command (propOf opened ''currency'')) b
                    (map (\<lambda>e. propOf e ''withdrawalId'')
                         (filter (\<lambda>e. isType e ''MoneyWithdrawn'') evs1)))
                 (withdrawOutcome eventStore command s)" ..
  with ex have "await (process (effectiveCommand command (propOf opened ''currency'')) b
                    (map (\<lambda>e. propOf e ''withdrawalId'')
                         (filter (\<lambda>e. isType e ''MoneyWithdrawn'') evs1)))
                 (withdrawOutcome eventStore command s) = Inr (Success ev, s')" by simp
  from outcome_Success(3)[OF this] show ?thesis by (intro exI)
qed

lemma withdraw2_decided:
  assumes q: "query eventStore (accountEventsFilter (get command ''accountId'')) s
                = Inr (ResultRecord r1)"
       "query eventStore (transferFromFilter (get command ''accountId'')) s
                = Inr (ResultRecord r2)"
       "query eventStore (transferToFilter (get command ''accountId'')) s
                = Inr (ResultRecord r3)"
    and op: "find (isOpeningOf (get command ''accountId''))
               (events r1 @ events r2 @ events r3) = Some opened"
    and ex: "withdraw_execute2 js eventStore process command s = Inr (Success ev, s')"
  shows "\<exists>b ids. process (effectiveCommand command (propOf opened ''currency'')) b ids
                    = Inr (Success ev)"
proof -
  from withdraw2_runs_decision[OF q op, of js process] obtain b where
    "withdraw_execute2 js eventStore process command s =
           await (process (effectiveCommand command (propOf opened ''currency'')) b
                    (map (\<lambda>e. propOf e ''withdrawalId'')
                         (filter (\<lambda>e. isType e ''MoneyWithdrawn'') (events r1))))
                 (withdrawOutcome2 eventStore command
                    (max (maxSequenceNumber r1)
                         (max (maxSequenceNumber r2) (maxSequenceNumber r3))) s)" ..
  with ex have "await (process (effectiveCommand command (propOf opened ''currency'')) b
                    (map (\<lambda>e. propOf e ''withdrawalId'')
                         (filter (\<lambda>e. isType e ''MoneyWithdrawn'') (events r1))))
                 (withdrawOutcome2 eventStore command
                    (max (maxSequenceNumber r1)
                         (max (maxSequenceNumber r2) (maxSequenceNumber r3))) s)
                = Inr (Success ev, s')" by simp
  from outcome_Success(4)[OF this] show ?thesis by (intro exI)
qed

lemma query_arrayStore:
  "\<not> badFilter F \<Longrightarrow>
     query (arrayStore now) F log = Inr (BareArray (map toEvent (selectRows F log)))"
  by (simp add: arrayStore_def queryResult_def)

lemma query_recordStore:
  "\<not> badFilter F \<Longrightarrow>
     query (recordStore now) F log =
       Inr (ResultRecord \<lparr>events = map toEvent (selectRows F log),
                          maxSequenceNumber = maxSeq F log\<rparr>)"
  by (simp add: recordStore_def queryResult_def)

lemmas filter_defs = transferQueryFilter_def transferAppendFilter_def depositQueryFilter_def
  depositAppendFilter_def accountEventsFilter_def transferFromFilter_def transferToFilter_def
  withdrawAppendFilter_def withdrawAppendFilter2_def openAppendFilter_def createFilter_def
  withPayloadPredicate_def withPayloadPredicates_def

lemma slice_filters_good:
  "\<not> badFilter (transferQueryFilter f t)"
  "\<not> badFilter (depositQueryFilter a)"
  "\<not> badFilter (accountEventsFilter a)"
  "\<not> badFilter (transferFromFilter a)"
  "\<not> badFilter (transferToFilter a)"
  "\<not> badFilter (createFilter [''BankAccountOpened''] [])"
  by (simp_all add: filter_defs badFilter_def blank_def)

lemma contains_single:
  "contains (JObj obj) (JObj [(k, JStr x)]) \<longleftrightarrow> get obj k = Some (JStr x)"
  by (simp add: get_def contains_scalar split: option.splits)

lemma selectRows_skip:
  "\<not> whereClause F r \<Longrightarrow> selectRows F (log1 @ r # log2) = selectRows F (log1 @ log2)"
  by (simp add: selectRows_def)

text \<open>
  Claim C9. The transfer-money slice reads its context with the filter
  \<open>transferQueryFilter f t\<close>. A \<open>MoneyTransferred\<close> row whose payload has
  \<open>fromAccountId = f\<close>, a \<open>toAccountId\<close> other than \<open>f\<close> and no key \<open>accountId\<close> is
  contained in none of the four predicates (for \<open>f \<noteq> t\<close>), so the query does not return
  it, and the state the slice decides on, the balance of the source account included, is
  the state it would compute from the log without that row. A transfer from \<open>f\<close> to \<open>t\<close>
  itself is such a row.
\<close>

theorem outgoing_transfers_outside_transfer_context:
  assumes "f \<noteq> t" and "event_type r = ''MoneyTransferred''"
    and "get (payload r) ''fromAccountId'' = Some (JStr f)"
    and "get (payload r) ''toAccountId'' \<noteq> Some (JStr f)"
    and "get (payload r) ''accountId'' = None"
  shows "(\<forall>p \<in> set (payload_predicates (transferQueryFilter (Some (JStr f)) (Some (JStr t)))).
            \<not> contains (JObj (payload r)) (JObj p))
         \<and> toEvent r \<notin> set (case query (arrayStore now)
                                       (transferQueryFilter (Some (JStr f)) (Some (JStr t)))
                                       (log1 @ r # log2) of
                                 Inr (BareArray evs) \<Rightarrow> evs | _ \<Rightarrow> [])
         \<and> getTransferState js (arrayStore now) (Some (JStr f)) (Some (JStr t)) (log1 @ r # log2)
             = getTransferState js (arrayStore now) (Some (JStr f)) (Some (JStr t)) (log1 @ log2)"
proof -
  let ?F = "transferQueryFilter (Some (JStr f)) (Some (JStr t))"
  have ps: "payload_predicates ?F =
              [[(''accountId'', JStr f)], [(''accountId'', JStr t)],
               [(''toAccountId'', JStr f)], [(''fromAccountId'', JStr t)]]"
    by (simp add: filter_defs)
  have preds: "\<forall>p \<in> set (payload_predicates ?F). \<not> contains (JObj (payload r)) (JObj p)"
    unfolding ps using assms by (simp add: contains_single del: contains.simps)
  have nm: "\<not> whereClause ?F r"
    unfolding whereClause_def list_ex_iff using preds ps by auto
  have "toEvent r \<notin> set (map toEvent (selectRows ?F (log1 @ r # log2)))"
  proof
    assume "toEvent r \<in> set (map toEvent (selectRows ?F (log1 @ r # log2)))"
    then obtain r' where r': "r' \<in> {ra \<in> set (log1 @ r # log2). whereClause ?F ra}"
        "toEvent r = toEvent r'"
      unfolding set_map set_selectRows by (rule imageE)
    from r'(1) have w: "whereClause ?F r'" by (rule CollectE) (erule conjE)
    from toEvent_same[OF r'(2)] w have "whereClause ?F r"
      unfolding whereClause_def by simp
    with nm show False by simp
  qed
  moreover have "getTransferState js (arrayStore now) (Some (JStr f)) (Some (JStr t)) (log1 @ r # log2)
             = getTransferState js (arrayStore now) (Some (JStr f)) (Some (JStr t)) (log1 @ log2)"
    unfolding getTransferState_def query_arrayStore[OF slice_filters_good(1)]
      selectRows_skip[OF nm] by (rule refl)
  ultimately show ?thesis using preds
    unfolding query_arrayStore[OF slice_filters_good(1)] by simp
qed


lemmas slice_eval = store_defs eval_defs filter_defs sampleLog_def doubles_eval buildAccountState_def
  applyEvent_def

theorem outgoing_transfers_outside_transfer_context_witness:
  "event_type (sampleLog ! 4) = ''MoneyTransferred''
   \<and> get (payload (sampleLog ! 4)) ''fromAccountId'' = Some (JStr ''A'')
   \<and> get (payload (sampleLog ! 4)) ''toAccountId'' = Some (JStr ''B'')
   \<and> get (payload (sampleLog ! 4)) ''accountId'' = None
   \<and> getTransferState doubles (arrayStore 0) (Some (JStr ''A'')) (Some (JStr ''B'')) sampleLog
       = getTransferState doubles (arrayStore 0) (Some (JStr ''A'')) (Some (JStr ''B''))
           (take 4 sampleLog @ drop 5 sampleLog)
   \<and> getTransferState doubles (arrayStore 0) (Some (JStr ''A'')) (Some (JStr ''B'')) sampleLog
       = Inr (Some \<lparr>balance = VNum (Finite 125), currency = Some (JStr ''USD'')\<rparr>,
              Some \<lparr>balance = VNum (Finite (- 5)), currency = Some (JStr ''USD'')\<rparr>,
              [Some (JStr ''t2'')])
   \<and> buildAccountState doubles (map toEvent sampleLog) (Some (JStr ''A''))
       = Some \<lparr>balance = VNum (Finite 105), currency = Some (JStr ''USD'')\<rparr>"
proof -
  have h: "''A'' \<noteq> ''B''" "event_type (sampleLog ! 4) = ''MoneyTransferred''"
    "get (payload (sampleLog ! 4)) ''fromAccountId'' = Some (JStr ''A'')"
    "get (payload (sampleLog ! 4)) ''toAccountId'' \<noteq> Some (JStr ''A'')"
    "get (payload (sampleLog ! 4)) ''accountId'' = None"
    "get (payload (sampleLog ! 4)) ''toAccountId'' = Some (JStr ''B'')"
    by (simp_all add: sampleLog_def get_def)
  have split: "sampleLog = take 4 sampleLog @ (sampleLog ! 4) # drop 5 sampleLog"
    by (simp add: sampleLog_def)
  have eq: "getTransferState doubles (arrayStore 0) (Some (JStr ''A'')) (Some (JStr ''B''))
              (take 4 sampleLog @ (sampleLog ! 4) # drop 5 sampleLog)
          = getTransferState doubles (arrayStore 0) (Some (JStr ''A'')) (Some (JStr ''B''))
              (take 4 sampleLog @ drop 5 sampleLog)"
    using outgoing_transfers_outside_transfer_context[OF h(1-5), where now = 0
        and ?log1.0 = "take 4 sampleLog" and ?log2.0 = "drop 5 sampleLog" and js = doubles]
    by simp
  have val: "getTransferState doubles (arrayStore 0) (Some (JStr ''A'')) (Some (JStr ''B'')) sampleLog
       = Inr (Some \<lparr>balance = VNum (Finite 125), currency = Some (JStr ''USD'')\<rparr>,
              Some \<lparr>balance = VNum (Finite (- 5)), currency = Some (JStr ''USD'')\<rparr>,
              [Some (JStr ''t2'')])"
    by (simp add: getTransferState_def query_arrayStore slice_filters_good slice_eval)
  have net: "buildAccountState doubles (map toEvent sampleLog) (Some (JStr ''A''))
       = Some \<lparr>balance = VNum (Finite 105), currency = Some (JStr ''USD'')\<rparr>"
    by (simp add: slice_eval)
  from eq split have "getTransferState doubles (arrayStore 0) (Some (JStr ''A'')) (Some (JStr ''B'')) sampleLog
       = getTransferState doubles (arrayStore 0) (Some (JStr ''A'')) (Some (JStr ''B''))
           (take 4 sampleLog @ drop 5 sampleLog)" by simp
  with h val net show ?thesis by simp
qed

lemma shape_simps [simp]:
  "isArray (BareArray es)" "\<not> isArray (ResultRecord r)"
  "isRecord (ResultRecord r)" "\<not> isRecord (BareArray es)"
  by (simp_all add: isArray_def isRecord_def)

text \<open>
  Claim C5. The state functions use the value of \<open>query\<close> in two shapes that exclude each
  other. \<open>getTransferState\<close>, \<open>getDepositState\<close>, \<open>getOpenAccountState\<close> and the first
  \<open>getWithdrawState\<close> use it as the array of events: on an array they compute their state
  from its elements, on a record \<open>{events, maxSequenceNumber}\<close> they throw a \<open>TypeError\<close>.
  The second \<open>getWithdrawState\<close> uses the fields \<open>events\<close> and \<open>maxSequenceNumber\<close> of the
  value: on records it computes its state from them, on an array it throws a \<open>TypeError\<close>.
  So for no values of the three queries do both variants of \<open>getWithdrawState\<close> return.
\<close>

theorem query_value_shapes:
  "(query eventStore (transferQueryFilter f t) s = Inr v \<longrightarrow>
      (case v of
         BareArray evs \<Rightarrow>
           getTransferState js eventStore f t s =
             Inr (buildAccountState js evs f, buildAccountState js evs t,
                  map (\<lambda>e. propOf e ''transferId'')
                      (filter (\<lambda>e. isType e ''MoneyTransferred'') evs))
       | ResultRecord r \<Rightarrow> getTransferState js eventStore f t s = Inl TypeError))
   \<and> (query eventStore (depositQueryFilter a) s = Inr v \<longrightarrow>
      (isArray v \<longrightarrow> (\<exists>st. getDepositState eventStore a s = Inr st)) \<and>
      (isRecord v \<longrightarrow> getDepositState eventStore a s = Inl TypeError))
   \<and> (query eventStore (createFilter [''BankAccountOpened''] []) s = Inr v \<longrightarrow>
      (isArray v \<longrightarrow> (\<exists>st. getOpenAccountState eventStore n s = Inr st)) \<and>
      (isRecord v \<longrightarrow> getOpenAccountState eventStore n s = Inl TypeError))
   \<and> (query eventStore (accountEventsFilter a) s = Inr v1
        \<and> query eventStore (transferFromFilter a) s = Inr v2
        \<and> query eventStore (transferToFilter a) s = Inr v3 \<longrightarrow>
      ((\<exists>st. getWithdrawState js eventStore a s = Inr st)
          \<longleftrightarrow> isArray v1 \<and> isArray v2 \<and> isArray v3) \<and>
      ((\<exists>st. getWithdrawState2 js eventStore a s = Inr st)
          \<longleftrightarrow> isRecord v1 \<and> isRecord v2 \<and> isRecord v3) \<and>
      (isRecord v1 \<longrightarrow> getWithdrawState js eventStore a s = Inl TypeError) \<and>
      (isArray v1 \<longrightarrow> getWithdrawState2 js eventStore a s = Inl TypeError) \<and>
      (case (v1, v2, v3) of
         (ResultRecord r1, ResultRecord r2, ResultRecord r3) \<Rightarrow>
           getWithdrawState2 js eventStore a s =
             Inr ((buildAccountState js (events r1 @ events r2 @ events r3) a,
                   map (\<lambda>e. propOf e ''withdrawalId'')
                       (filter (\<lambda>e. isType e ''MoneyWithdrawn'') (events r1))),
                  max (maxSequenceNumber r1) (max (maxSequenceNumber r2) (maxSequenceNumber r3)))
       | _ \<Rightarrow> True))"
proof (intro conjI impI)
  assume "query eventStore (transferQueryFilter f t) s = Inr v"
  then show "case v of
         BareArray evs \<Rightarrow>
           getTransferState js eventStore f t s =
             Inr (buildAccountState js evs f, buildAccountState js evs t,
                  map (\<lambda>e. propOf e ''transferId'')
                      (filter (\<lambda>e. isType e ''MoneyTransferred'') evs))
       | ResultRecord r \<Rightarrow> getTransferState js eventStore f t s = Inl TypeError"
    by (cases v) (simp_all add: getTransferState_def)
next
  assume "query eventStore (depositQueryFilter a) s = Inr v" "isArray v"
  then show "\<exists>st. getDepositState eventStore a s = Inr st"
    by (cases v) (simp_all add: getDepositState_def)
next
  assume "query eventStore (depositQueryFilter a) s = Inr v" "isRecord v"
  then show "getDepositState eventStore a s = Inl TypeError"
    by (cases v) (simp_all add: getDepositState_def)
next
  assume "query eventStore (createFilter [''BankAccountOpened''] []) s = Inr v" "isArray v"
  then show "\<exists>st. getOpenAccountState eventStore n s = Inr st"
    by (cases v) (simp_all add: getOpenAccountState_def)
next
  assume "query eventStore (createFilter [''BankAccountOpened''] []) s = Inr v" "isRecord v"
  then show "getOpenAccountState eventStore n s = Inl TypeError"
    by (cases v) (simp_all add: getOpenAccountState_def)
next
  assume q: "query eventStore (accountEventsFilter a) s = Inr v1
        \<and> query eventStore (transferFromFilter a) s = Inr v2
        \<and> query eventStore (transferToFilter a) s = Inr v3"
  then show "(\<exists>st. getWithdrawState js eventStore a s = Inr st)
          \<longleftrightarrow> isArray v1 \<and> isArray v2 \<and> isArray v3"
    by (cases v1; cases v2; cases v3) (simp_all add: getWithdrawState_def)
  from q show "(\<exists>st. getWithdrawState2 js eventStore a s = Inr st)
          \<longleftrightarrow> isRecord v1 \<and> isRecord v2 \<and> isRecord v3"
    by (cases v1; cases v2; cases v3) (simp_all add: getWithdrawState2_def)
  from q show "case (v1, v2, v3) of
         (ResultRecord r1, ResultRecord r2, ResultRecord r3) \<Rightarrow>
           getWithdrawState2 js eventStore a s =
             Inr ((buildAccountState js (events r1 @ events r2 @ events r3) a,
                   map (\<lambda>e. propOf e ''withdrawalId'')
                       (filter (\<lambda>e. isType e ''MoneyWithdrawn'') (events r1))),
                  max (maxSequenceNumber r1) (max (maxSequenceNumber r2) (maxSequenceNumber r3)))
       | _ \<Rightarrow> True"
    by (cases v1; cases v2; cases v3) (simp_all add: getWithdrawState2_def)
  { assume "isRecord v1"
    with q show "getWithdrawState js eventStore a s = Inl TypeError"
      by (cases v1) (simp_all add: getWithdrawState_def) }
  { assume "isArray v1"
    with q show "getWithdrawState2 js eventStore a s = Inl TypeError"
      by (cases v1) (simp_all add: getWithdrawState2_def) }
qed

theorem query_value_shapes_witness:
  "getTransferState doubles (recordStore 0) (Some (JStr ''A'')) (Some (JStr ''B'')) sampleLog
     = Inl TypeError
   \<and> getTransferState doubles (arrayStore 0) (Some (JStr ''A'')) (Some (JStr ''B'')) sampleLog
     = Inr (Some \<lparr>balance = VNum (Finite 125), currency = Some (JStr ''USD'')\<rparr>,
            Some \<lparr>balance = VNum (Finite (- 5)), currency = Some (JStr ''USD'')\<rparr>,
            [Some (JStr ''t2'')])
   \<and> getWithdrawState doubles (recordStore 0) (Some (JStr ''A'')) sampleLog = Inl TypeError
   \<and> getWithdrawState2 doubles (arrayStore 0) (Some (JStr ''A'')) sampleLog = Inl TypeError
   \<and> getWithdrawState2 doubles (recordStore 0) (Some (JStr ''A'')) sampleLog
     = Inr ((Some \<lparr>balance = VNum (Finite 105), currency = Some (JStr ''USD'')\<rparr>,
             [Some (JStr ''w1'')]), 6)"
proof -
  let ?A = "Some (JStr ''A'')" and ?B = "Some (JStr ''B'')"
  let ?rec = "\<lambda>F. \<lparr>events = map toEvent (selectRows F sampleLog),
                      maxSequenceNumber = maxSeq F sampleLog\<rparr>"
  let ?arr = "\<lambda>F. map toEvent (selectRows F sampleLog)"
  note r = query_value_shapes[where eventStore = "recordStore 0" and s = sampleLog
      and js = doubles
      and f = ?A and t = ?B and a = ?A
      and v = "ResultRecord (?rec (transferQueryFilter ?A ?B))"
      and ?v1.0 = "ResultRecord (?rec (accountEventsFilter ?A))"
      and ?v2.0 = "ResultRecord (?rec (transferFromFilter ?A))"
      and ?v3.0 = "ResultRecord (?rec (transferToFilter ?A))"]
  note a = query_value_shapes[where eventStore = "arrayStore 0" and s = sampleLog
      and js = doubles
      and f = ?A and t = ?B and a = ?A
      and v = "BareArray (?arr (transferQueryFilter ?A ?B))"
      and ?v1.0 = "BareArray (?arr (accountEventsFilter ?A))"
      and ?v2.0 = "BareArray (?arr (transferFromFilter ?A))"
      and ?v3.0 = "BareArray (?arr (transferToFilter ?A))"]
  have 1: "getTransferState doubles (recordStore 0) ?A ?B sampleLog = Inl TypeError"
    and 3: "getWithdrawState doubles (recordStore 0) ?A sampleLog = Inl TypeError"
    and 5: "getWithdrawState2 doubles (recordStore 0) ?A sampleLog =
             Inr ((buildAccountState doubles
                     (events (?rec (accountEventsFilter ?A)) @ events (?rec (transferFromFilter ?A))
                        @ events (?rec (transferToFilter ?A))) ?A,
                   map (\<lambda>e. propOf e ''withdrawalId'')
                       (filter (\<lambda>e. isType e ''MoneyWithdrawn'')
                          (events (?rec (accountEventsFilter ?A))))),
                  max (maxSequenceNumber (?rec (accountEventsFilter ?A)))
                    (max (maxSequenceNumber (?rec (transferFromFilter ?A)))
                         (maxSequenceNumber (?rec (transferToFilter ?A)))))"
    using r by (simp_all add: query_recordStore slice_filters_good)
  have 2: "getTransferState doubles (arrayStore 0) ?A ?B sampleLog =
             Inr (buildAccountState doubles (?arr (transferQueryFilter ?A ?B)) ?A,
                  buildAccountState doubles (?arr (transferQueryFilter ?A ?B)) ?B,
                  map (\<lambda>e. propOf e ''transferId'')
                      (filter (\<lambda>e. isType e ''MoneyTransferred'')
                         (?arr (transferQueryFilter ?A ?B))))"
    and 4: "getWithdrawState2 doubles (arrayStore 0) ?A sampleLog = Inl TypeError"
    using a by (simp_all add: query_arrayStore slice_filters_good)
  from 2 have two: "getTransferState doubles (arrayStore 0) ?A ?B sampleLog
     = Inr (Some \<lparr>balance = VNum (Finite 125), currency = Some (JStr ''USD'')\<rparr>,
            Some \<lparr>balance = VNum (Finite (- 5)), currency = Some (JStr ''USD'')\<rparr>,
            [Some (JStr ''t2'')])"
    by (simp add: slice_eval)
  from 5 have five: "getWithdrawState2 doubles (recordStore 0) ?A sampleLog
     = Inr ((Some \<lparr>balance = VNum (Finite 105), currency = Some (JStr ''USD'')\<rparr>,
             [Some (JStr ''w1'')]), 6)"
    by (simp add: slice_eval)
  from 1 two 3 4 five show ?thesis by simp
qed

text \<open>
  Claim C2, as stated, fails. For the transfer command of the examples the slice queries
  with four event types and four predicates on the two account identifiers, and appends
  with the one type \<open>MoneyTransferred\<close> and the one predicate on \<open>transferId\<close>. The
  append filter of the second withdraw-money variant is none of its three query filters
  either.
\<close>

theorem append_filter_differs_counterexample:
  "transferQueryFilter (get transferCommand ''fromAccountId'') (get transferCommand ''toAccountId'')
     = \<lparr>event_types = [''BankAccountOpened'', ''MoneyDeposited'', ''MoneyWithdrawn'',
                        ''MoneyTransferred''],
        payload_predicates = [[(''accountId'', JStr ''A'')], [(''accountId'', JStr ''B'')],
                              [(''toAccountId'', JStr ''A'')], [(''fromAccountId'', JStr ''B'')]]\<rparr>
   \<and> transferAppendFilter transferCommand
     = \<lparr>event_types = [''MoneyTransferred''],
        payload_predicates = [[(''transferId'', JStr ''t3'')]]\<rparr>
   \<and> set (event_types (transferAppendFilter transferCommand))
       \<noteq> set (event_types (transferQueryFilter (get transferCommand ''fromAccountId'')
                               (get transferCommand ''toAccountId'')))
   \<and> payload_predicates (transferAppendFilter transferCommand)
       \<noteq> payload_predicates (transferQueryFilter (get transferCommand ''fromAccountId'')
                                 (get transferCommand ''toAccountId''))
   \<and> withdrawAppendFilter2 withdrawCommand \<noteq> accountEventsFilter (get withdrawCommand ''accountId'')
   \<and> withdrawAppendFilter2 withdrawCommand \<noteq> transferFromFilter (get withdrawCommand ''accountId'')
   \<and> withdrawAppendFilter2 withdrawCommand \<noteq> transferToFilter (get withdrawCommand ''accountId'')"
  by (simp add: filter_defs transferCommand_def withdrawCommand_def get_def)

text \<open>
  Claim C2, amended. In the second withdraw-money variant the filter passed to \<open>append\<close>
  is built from the three filters of the preceding queries: its set of event types is the
  union of theirs, its predicates are theirs in order, and every row that one of the three
  queries selects is selected by it.
\<close>

theorem withdraw2_append_filter_covers_queries:
  "set (event_types (withdrawAppendFilter2 command))
     = set (event_types (accountEventsFilter (get command ''accountId'')))
       \<union> set (event_types (transferFromFilter (get command ''accountId'')))
       \<union> set (event_types (transferToFilter (get command ''accountId'')))
   \<and> payload_predicates (withdrawAppendFilter2 command)
     = payload_predicates (accountEventsFilter (get command ''accountId''))
       @ payload_predicates (transferFromFilter (get command ''accountId''))
       @ payload_predicates (transferToFilter (get command ''accountId''))
   \<and> (\<forall>r. whereClause (accountEventsFilter (get command ''accountId'')) r
            \<or> whereClause (transferFromFilter (get command ''accountId'')) r
            \<or> whereClause (transferToFilter (get command ''accountId'')) r
          \<longrightarrow> whereClause (withdrawAppendFilter2 command) r)"
  by (auto simp: filter_defs whereClause_def)

theorem withdraw2_append_filter_covers_queries_witness:
  "whereClause (accountEventsFilter (get withdrawCommand ''accountId'')) (sampleLog ! 3)
   \<and> whereClause (withdrawAppendFilter2 withdrawCommand) (sampleLog ! 3)
   \<and> whereClause (transferFromFilter (get withdrawCommand ''accountId'')) (sampleLog ! 4)
   \<and> whereClause (withdrawAppendFilter2 withdrawCommand) (sampleLog ! 4)"
proof -
  have 1: "whereClause (accountEventsFilter (get withdrawCommand ''accountId'')) (sampleLog ! 3)"
    and 2: "whereClause (transferFromFilter (get withdrawCommand ''accountId'')) (sampleLog ! 4)"
    by (simp_all add: filter_defs whereClause_def withdrawCommand_def get_def sampleLog_def)
  from 1 2 withdraw2_append_filter_covers_queries[of withdrawCommand]
  show ?thesis by blast
qed

lemma map_of_filter_other:
  "k' \<noteq> k \<Longrightarrow> map_of (filter (\<lambda>kv. fst kv \<noteq> k) obj) k' = map_of obj k'"
  by (induction obj) auto

lemma get_withField_other: "k' \<noteq> k \<Longrightarrow> get (withField k v obj) k' = get obj k'"
  by (cases v) (simp_all add: withField_def get_def map_of_filter_other)

text \<open>
  Claim C6. In an execution that reaches \<open>append\<close> (the accounts exist and the decision
  function returns an event) and in which \<open>append\<close> throws, whatever it throws, \<open>execute\<close>
  returns \<open>success: false\<close> and leaves the store as it was; the error type is
  \<open>InsufficientFunds\<close> for transfer-money and both withdraw-money variants,
  \<open>InvalidAmount\<close> for deposit-money and \<open>InvalidCustomerName\<close> for open-bank-account, and
  nothing of what was thrown is in the result. The same type is the one of a domain
  failure: the slice returns it when the account is not found, and the README's
  \<open>processOpenAccountCommand\<close> returns \<open>InvalidCustomerName\<close> for a name that exists.
\<close>

theorem append_failure_is_domain_error:
  "(getTransferState js eventStore (get command ''fromAccountId'') (get command ''toAccountId'') s
        = Inr (Some fromAcc, Some toAcc, ids)
      \<and> process (effectiveCommand command (currency fromAcc)) (balance fromAcc) ids
        = Inr (Success ev)
      \<and> append' eventStore (transferAppendFilter command) [transferEventOf ev] None s
        = Inl thrown
    \<longrightarrow> transfer_execute js eventStore process command s
        = Inr (Failure \<lparr>type = ''InsufficientFunds'',
                        message = ''Failed to save transfer event''\<rparr>, s))
   \<and> (getTransferState js eventStore (get command ''fromAccountId'') (get command ''toAccountId'') s
        = Inr (None, toAccount, ids)
    \<longrightarrow> transfer_execute js eventStore process command s
        = Inr (Failure \<lparr>type = ''InsufficientFunds'',
                        message = ''From account not found''\<rparr>, s))
   \<and> (getDepositState eventStore (get command ''accountId'') s = Inr (Some accountCurrency, ids)
      \<and> processD (effectiveCommand command accountCurrency) ids = Inr (Success ev)
      \<and> append' eventStore (depositAppendFilter command) [depositEventOf ev] None s = Inl thrown
    \<longrightarrow> deposit_execute eventStore processD command s
        = Inr (Failure \<lparr>type = ''InvalidAmount'',
                        message = ''Failed to save deposit event''\<rparr>, s))
   \<and> (getDepositState eventStore (get command ''accountId'') s = Inr (None, ids)
    \<longrightarrow> deposit_execute eventStore processD command s
        = Inr (Failure \<lparr>type = ''InvalidAmount'', message = ''Account not found''\<rparr>, s))
   \<and> (getWithdrawState js eventStore (get command ''accountId'') s = Inr (Some acc, ids)
      \<and> process (effectiveCommand command (currency acc)) (balance acc) ids = Inr (Success ev)
      \<and> append' eventStore (withdrawAppendFilter command) [withdrawEventOf ev] None s
        = Inl thrown
    \<longrightarrow> withdraw_execute js eventStore process command s
        = Inr (Failure \<lparr>type = ''InsufficientFunds'',
                        message = ''Failed to save withdrawal event''\<rparr>, s))
   \<and> (getWithdrawState js eventStore (get command ''accountId'') s = Inr (None, ids)
    \<longrightarrow> withdraw_execute js eventStore process command s
        = Inr (Failure \<lparr>type = ''InsufficientFunds'', message = ''Account not found''\<rparr>, s))
   \<and> (getWithdrawState2 js eventStore (get command ''accountId'') s = Inr ((Some acc, ids), m)
      \<and> process (effectiveCommand command (currency acc)) (balance acc) ids = Inr (Success ev)
      \<and> append' eventStore (withdrawAppendFilter2 command) [withdrawEventOf ev] (Some m) s
        = Inl thrown
    \<longrightarrow> withdraw_execute2 js eventStore process command s
        = Inr (Failure \<lparr>type = ''InsufficientFunds'',
                        message = ''Failed to save withdrawal event''\<rparr>, s))
   \<and> (getWithdrawState2 js eventStore (get command ''accountId'') s = Inr ((None, ids), m)
    \<longrightarrow> withdraw_execute2 js eventStore process command s
        = Inr (Failure \<lparr>type = ''InsufficientFunds'', message = ''Account not found''\<rparr>, s))
   \<and> (getOpenAccountState eventStore (get command ''customerName'') s = Inr names
      \<and> processO command accountId names = Inr (Success ev)
      \<and> append' eventStore (openAppendFilter command) [openEventOf ev] None s = Inl thrown
    \<longrightarrow> open_execute eventStore processO accountId command s
        = Inr (Failure \<lparr>type = ''InvalidCustomerName'',
                        message = ''Failed to save account opening event''\<rparr>, s))
   \<and> (validate (withField ''currency'' (jsOr (get command ''currency'') (Some (JStr ''USD'')))
                  (withField ''accountType''
                     (jsOr (get command ''accountType'') (Some (JStr ''checking''))) command))
        = None
      \<and> get command ''customerName'' = Some (JStr name)
      \<and> Some (JStr (trim name)) \<in> set names
    \<longrightarrow> processOpenAccountCommand validate trim openedAt command accountId (Some names)
        = Inr (Failure \<lparr>type = ''InvalidCustomerName'',
                        message = ''Customer name already exists''\<rparr>))"
proof (intro conjI impI)
  assume "validate (withField ''currency'' (jsOr (get command ''currency'') (Some (JStr ''USD'')))
                  (withField ''accountType''
                     (jsOr (get command ''accountType'') (Some (JStr ''checking''))) command))
        = None
      \<and> get command ''customerName'' = Some (JStr name)
      \<and> Some (JStr (trim name)) \<in> set names"
  moreover have "get (withField ''currency'' (jsOr (get command ''currency'') (Some (JStr ''USD'')))
                  (withField ''accountType''
                     (jsOr (get command ''accountType'') (Some (JStr ''checking''))) command))
                  ''customerName'' = get command ''customerName''"
    by (simp add: get_withField_other)
  ultimately show "processOpenAccountCommand validate trim openedAt command accountId (Some names)
        = Inr (Failure \<lparr>type = ''InvalidCustomerName'',
                        message = ''Customer name already exists''\<rparr>)"
    by (simp add: processOpenAccountCommand_def Let_def)
qed (simp_all add: transfer_execute_def deposit_execute_def withdraw_execute_def
       withdraw_execute2_def open_execute_def)


lemma query_failingStore [simp]:
  "query failingStore = query (arrayStore 0)"
  "query failingRecordStore = query (recordStore 0)"
  "append' failingStore F evs expected log = Inl (StoreError StoreUnavailable)"
  "append' failingRecordStore F evs expected log = Inl (StoreError StoreUnavailable)"
  by (simp_all add: failingStore_def failingRecordStore_def)

lemmas command_defs = transferCommand_def depositCommand_def withdrawCommand_def
  openCommand_def acceptTransfer_def acceptDeposit_def acceptWithdraw_def
  effectiveCommand_def withField_def

lemmas state_defs = getTransferState_def getDepositState_def getWithdrawState_def
  getWithdrawState2_def getOpenAccountState_def

theorem append_failure_is_domain_error_witness:
  "transfer_execute doubles failingStore acceptTransfer transferCommand sampleLog
     = Inr (Failure \<lparr>type = ''InsufficientFunds'',
                     message = ''Failed to save transfer event''\<rparr>, sampleLog)
   \<and> deposit_execute failingStore acceptDeposit depositCommand sampleLog
     = Inr (Failure \<lparr>type = ''InvalidAmount'',
                     message = ''Failed to save deposit event''\<rparr>, sampleLog)
   \<and> withdraw_execute2 doubles failingRecordStore acceptWithdraw withdrawCommand sampleLog
     = Inr (Failure \<lparr>type = ''InsufficientFunds'',
                     message = ''Failed to save withdrawal event''\<rparr>, sampleLog)
   \<and> open_execute failingStore
        (\<lambda>c a names. processOpenAccountCommand (\<lambda>c. None) trimAscii (Some (JNum 0)) c a (Some names))
        (Some (JStr ''C'')) openCommand sampleLog
     = Inr (Failure \<lparr>type = ''InvalidCustomerName'',
                     message = ''Failed to save account opening event''\<rparr>, sampleLog)
   \<and> processOpenAccountCommand (\<lambda>c. None) trimAscii (Some (JNum 0))
        [(''customerName'', JStr '' Alice '')] (Some (JStr ''C'')) (Some [Some (JStr ''Alice'')])
     = Inr (Failure \<lparr>type = ''InvalidCustomerName'',
                     message = ''Customer name already exists''\<rparr>)"
proof -
  note c6 = append_failure_is_domain_error
  have t1: "getTransferState doubles failingStore (get transferCommand ''fromAccountId'')
              (get transferCommand ''toAccountId'') sampleLog
            = Inr (Some \<lparr>balance = VNum (Finite 125), currency = Some (JStr ''USD'')\<rparr>,
                   Some \<lparr>balance = VNum (Finite (- 5)), currency = Some (JStr ''USD'')\<rparr>,
                   [Some (JStr ''t2'')])"
    by (simp add: state_defs query_arrayStore slice_filters_good slice_eval command_defs)
  have t2: "acceptTransfer (effectiveCommand transferCommand (Some (JStr ''USD''))) (VNum (Finite 125))
              [Some (JStr ''t2'')]
            = Inr (Success (objLit
                 [(''type'', Some (JStr ''MoneyTransferred'')),
                  (''fromAccountId'', Some (JStr ''A'')), (''toAccountId'', Some (JStr ''B'')),
                  (''amount'', Some (JNum 100)), (''currency'', Some (JStr ''USD'')),
                  (''transferId'', Some (JStr ''t3'')), (''timestamp'', Some (JNum 0))]))"
    by (simp add: command_defs get_def jsOr_def)
  have transfer: "transfer_execute doubles failingStore acceptTransfer transferCommand sampleLog
     = Inr (Failure \<lparr>type = ''InsufficientFunds'',
                     message = ''Failed to save transfer event''\<rparr>, sampleLog)"
    using c6[THEN conjunct1, rule_format, where eventStore = failingStore
        and command = transferCommand and s = sampleLog and process = acceptTransfer
        and js = doubles
        and fromAcc = "\<lparr>balance = VNum (Finite 125), currency = Some (JStr ''USD'')\<rparr>"
        and toAcc = "\<lparr>balance = VNum (Finite (- 5)), currency = Some (JStr ''USD'')\<rparr>"
        and ids = "[Some (JStr ''t2'')]"
        and thrown = "StoreError StoreUnavailable"] t1 t2
    by simp
  have d1: "getDepositState failingStore (get depositCommand ''accountId'') sampleLog
            = Inr (Some (Some (JStr ''USD'')), [Some (JStr ''d1'')])"
    by (simp add: state_defs query_arrayStore slice_filters_good slice_eval command_defs)
  have d2: "acceptDeposit (effectiveCommand depositCommand (Some (JStr ''USD'')))
              [Some (JStr ''d1'')]
            = Inr (Success (objLit
                 [(''type'', Some (JStr ''MoneyDeposited'')),
                  (''accountId'', Some (JStr ''A'')), (''amount'', Some (JNum 10)),
                  (''currency'', Some (JStr ''USD'')), (''depositId'', Some (JStr ''d2'')),
                  (''timestamp'', Some (JNum 0))]))"
    by (simp add: command_defs get_def jsOr_def)
  have deposit: "deposit_execute failingStore acceptDeposit depositCommand sampleLog
     = Inr (Failure \<lparr>type = ''InvalidAmount'',
                     message = ''Failed to save deposit event''\<rparr>, sampleLog)"
    using c6[THEN conjunct2, THEN conjunct2, THEN conjunct1, rule_format,
        where eventStore = failingStore and command = depositCommand and s = sampleLog
        and processD = acceptDeposit and accountCurrency = "Some (JStr ''USD'')"
        and ids = "[Some (JStr ''d1'')]" and thrown = "StoreError StoreUnavailable"] d1 d2
    by simp
  have w1: "getWithdrawState2 doubles failingRecordStore (get withdrawCommand ''accountId'') sampleLog
            = Inr ((Some \<lparr>balance = VNum (Finite 105), currency = Some (JStr ''USD'')\<rparr>,
                    [Some (JStr ''w1'')]), 6)"
    by (simp add: state_defs query_recordStore slice_filters_good slice_eval command_defs)
  have w2: "acceptWithdraw (effectiveCommand withdrawCommand (Some (JStr ''USD''))) (VNum (Finite 105))
              [Some (JStr ''w1'')]
            = Inr (Success (objLit
                 [(''type'', Some (JStr ''MoneyWithdrawn'')),
                  (''accountId'', Some (JStr ''A'')), (''amount'', Some (JNum 10)),
                  (''currency'', Some (JStr ''USD'')), (''withdrawalId'', Some (JStr ''w2'')),
                  (''timestamp'', Some (JNum 0))]))"
    by (simp add: command_defs get_def jsOr_def)
  have withdraw: "withdraw_execute2 doubles failingRecordStore acceptWithdraw withdrawCommand sampleLog
     = Inr (Failure \<lparr>type = ''InsufficientFunds'',
                     message = ''Failed to save withdrawal event''\<rparr>, sampleLog)"
    using c6[THEN conjunct2, THEN conjunct2, THEN conjunct2, THEN conjunct2, THEN conjunct2,
        THEN conjunct2, THEN conjunct1, rule_format,
        where eventStore = failingRecordStore and command = withdrawCommand and s = sampleLog
        and process = acceptWithdraw and js = doubles
        and acc = "\<lparr>balance = VNum (Finite 105), currency = Some (JStr ''USD'')\<rparr>"
        and ids = "[Some (JStr ''w1'')]" and m = 6
        and thrown = "StoreError StoreUnavailable"] w1 w2
    by simp
  let ?po = "\<lambda>c a names. processOpenAccountCommand (\<lambda>c. None) trimAscii (Some (JNum 0)) c a (Some names)"
  have o1: "getOpenAccountState failingStore (get openCommand ''customerName'') sampleLog
            = Inr [Some (JStr ''Alice''), Some (JStr ''Bob'')]"
    by (simp add: state_defs query_arrayStore slice_filters_good slice_eval command_defs)
  have o2: "?po openCommand (Some (JStr ''C'')) [Some (JStr ''Alice''), Some (JStr ''Bob'')]
            = Inr (Success (objLit
                 [(''type'', Some (JStr ''BankAccountOpened'')),
                  (''accountId'', Some (JStr ''C'')), (''customerName'', Some (JStr ''Carol'')),
                  (''accountType'', Some (JStr ''checking'')),
                  (''initialDeposit'', Some (JNum 1)), (''currency'', Some (JStr ''USD'')),
                  (''openedAt'', Some (JNum 0))]))"
    by (simp add: processOpenAccountCommand_def command_defs get_def jsOr_def trimAscii_def
          isSpace_def)
  have opened: "open_execute failingStore ?po (Some (JStr ''C'')) openCommand sampleLog
     = Inr (Failure \<lparr>type = ''InvalidCustomerName'',
                     message = ''Failed to save account opening event''\<rparr>, sampleLog)"
    using c6[THEN conjunct2, THEN conjunct2, THEN conjunct2, THEN conjunct2, THEN conjunct2,
        THEN conjunct2, THEN conjunct2, THEN conjunct2, THEN conjunct1, rule_format,
        where eventStore = failingStore and command = openCommand and s = sampleLog
        and processO = ?po and accountId = "Some (JStr ''C'')"
        and names = "[Some (JStr ''Alice''), Some (JStr ''Bob'')]"
        and thrown = "StoreError StoreUnavailable"] o1 o2
    by simp
  have dup: "processOpenAccountCommand (\<lambda>c. None) trimAscii (Some (JNum 0))
        [(''customerName'', JStr '' Alice '')] (Some (JStr ''C'')) (Some [Some (JStr ''Alice'')])
     = Inr (Failure \<lparr>type = ''InvalidCustomerName'',
                     message = ''Customer name already exists''\<rparr>)"
    using c6[THEN conjunct2, THEN conjunct2, THEN conjunct2, THEN conjunct2, THEN conjunct2,
        THEN conjunct2, THEN conjunct2, THEN conjunct2, THEN conjunct2, rule_format,
        where validate = "\<lambda>c. None" and trim = trimAscii
        and command = "[(''customerName'', JStr '' Alice '')]"
        and name = "'' Alice ''" and names = "[Some (JStr ''Alice'')]"]
    by (simp add: get_def trimAscii_def isSpace_def)
  from transfer deposit withdraw opened dup show ?thesis by simp
qed

text \<open>
  The second withdraw-money variant on the store that returns records: the expected
  sequence number it passes is the largest of the three queries', and when the append
  filter selects an event with a larger one, the conflict of the store comes back as
  the slice's own failure and the log stays as it was.
\<close>

lemma getWithdrawState2_maxSequenceNumber:
  assumes "getWithdrawState2 js (recordStore now) a log = Inr (st, m)"
  shows "m = max (maxSeq (accountEventsFilter a) log)
                 (max (maxSeq (transferFromFilter a) log) (maxSeq (transferToFilter a) log))"
  using assms by (auto simp: getWithdrawState2_def query_recordStore slice_filters_good)

lemma withdraw_execute2_conflict:
  assumes "getWithdrawState2 js (recordStore now) (get command ''accountId'') log
             = Inr ((Some acc, ids), m)"
    and "process (effectiveCommand command (currency acc)) (balance acc) ids
             = Inr (Success ev)"
    and "maxSeq (withdrawAppendFilter2 command) log \<noteq> m"
  shows "withdraw_execute2 js (recordStore now) process command log
           = Inr (Failure \<lparr>type = ''InsufficientFunds'',
                           message = ''Failed to save withdrawal event''\<rparr>, log)"
proof -
  have "\<not> badFilter (withdrawAppendFilter2 command)"
    by (simp add: filter_defs badFilter_def blank_def)
  with assms(3) have "append' (recordStore now) (withdrawAppendFilter2 command)
                        [withdrawEventOf ev] (Some m) log
                      = Inl (StoreError ConcurrencyConflict)"
    by (simp add: recordStore_def storeAppend_def appendEvents_def)
  with assms(1,2) show ?thesis
    by (simp add: withdraw_execute2_def)
qed

text \<open>
  Claim C10. Take a command with no currency (a falsy \<open>currency\<close>) and an account that
  exists, \<open>opened\<close> being the \<open>BankAccountOpened\<close> event the state function finds for it
  (for a transfer, the one of the source account, the destination account existing
  too). Then \<open>effectiveCommand\<close>, the command with the currency \<open>execute\<close> substitutes,
  has the currency of \<open>opened\<close>, and every one of transfer-money, deposit-money and the
  two withdraw-money variants is: the decision function run on that command, then the
  slice's way with its result (\<open>transferOutcome\<close> and its siblings). So whenever
  \<open>execute\<close> returns an event, the decision function made it of that command; and for a
  decision function that copies the command's currency into its event, as the functions
  of the modules \<open>core\<close> do in the slices' tests, the event returned and the event
  appended carry the currency of \<open>opened\<close>.
\<close>

theorem missing_currency_taken_from_account:
  "(\<not> truthy (get command ''currency'')
    \<longrightarrow> get (effectiveCommand command c) ''currency'' = c)
   \<and> (query eventStore (transferQueryFilter (get command ''fromAccountId'')
                (get command ''toAccountId'')) s = Inr (BareArray evs)
      \<and> find (isOpeningOf (get command ''fromAccountId'')) evs = Some opened
      \<and> buildAccountState js evs (get command ''toAccountId'') = Some toAcc
    \<longrightarrow> (\<exists>b. transfer_execute js eventStore process command s =
              await (process (effectiveCommand command (propOf opened ''currency'')) b
                       (map (\<lambda>e. propOf e ''transferId'')
                            (filter (\<lambda>e. isType e ''MoneyTransferred'') evs)))
                    (transferOutcome eventStore command s)))
   \<and> (query eventStore (depositQueryFilter (get command ''accountId'')) s = Inr (BareArray evs)
      \<and> find (\<lambda>e. isType e ''BankAccountOpened'') evs = Some opened
    \<longrightarrow> deposit_execute eventStore processD command s =
          await (processD (effectiveCommand command (propOf opened ''currency''))
                   (map (\<lambda>e. propOf e ''depositId'')
                        (filter (\<lambda>e. isType e ''MoneyDeposited'') evs)))
                (depositOutcome eventStore command s))
   \<and> (query eventStore (accountEventsFilter (get command ''accountId'')) s = Inr (BareArray evs1)
      \<and> query eventStore (transferFromFilter (get command ''accountId'')) s = Inr (BareArray evs2)
      \<and> query eventStore (transferToFilter (get command ''accountId'')) s = Inr (BareArray evs3)
      \<and> find (isOpeningOf (get command ''accountId'')) (evs1 @ evs2 @ evs3) = Some opened
    \<longrightarrow> (\<exists>b. withdraw_execute js eventStore process command s =
              await (process (effectiveCommand command (propOf opened ''currency'')) b
                       (map (\<lambda>e. propOf e ''withdrawalId'')
                            (filter (\<lambda>e. isType e ''MoneyWithdrawn'') evs1)))
                    (withdrawOutcome eventStore command s)))
   \<and> (query eventStore (accountEventsFilter (get command ''accountId'')) s
          = Inr (ResultRecord r1)
      \<and> query eventStore (transferFromFilter (get command ''accountId'')) s
          = Inr (ResultRecord r2)
      \<and> query eventStore (transferToFilter (get command ''accountId'')) s
          = Inr (ResultRecord r3)
      \<and> find (isOpeningOf (get command ''accountId'')) (events r1 @ events r2 @ events r3)
          = Some opened
    \<longrightarrow> (\<exists>b. withdraw_execute2 js eventStore process command s =
              await (process (effectiveCommand command (propOf opened ''currency'')) b
                       (map (\<lambda>e. propOf e ''withdrawalId'')
                            (filter (\<lambda>e. isType e ''MoneyWithdrawn'') (events r1))))
                    (withdrawOutcome2 eventStore command
                       (max (maxSequenceNumber r1)
                            (max (maxSequenceNumber r2) (maxSequenceNumber r3))) s)))
   \<and> (query eventStore (transferQueryFilter (get command ''fromAccountId'')
                (get command ''toAccountId'')) s = Inr (BareArray evs)
      \<and> find (isOpeningOf (get command ''fromAccountId'')) evs = Some opened
      \<and> \<not> truthy (get command ''currency'')
      \<and> transfer_execute js eventStore process command s = Inr (Success ev, s')
    \<longrightarrow> get (effectiveCommand command (propOf opened ''currency'')) ''currency''
          = propOf opened ''currency''
        \<and> (\<exists>b ids. process (effectiveCommand command (propOf opened ''currency'')) b ids
                      = Inr (Success ev))
        \<and> ((\<forall>c b ids e. process c b ids = Inr (Success e)
                \<longrightarrow> get e ''currency'' = get c ''currency'')
           \<longrightarrow> get ev ''currency'' = propOf opened ''currency''
               \<and> propOf (transferEventOf ev) ''currency'' = propOf opened ''currency''))
   \<and> (query eventStore (depositQueryFilter (get command ''accountId'')) s = Inr (BareArray evs)
      \<and> find (\<lambda>e. isType e ''BankAccountOpened'') evs = Some opened
      \<and> \<not> truthy (get command ''currency'')
      \<and> deposit_execute eventStore processD command s = Inr (Success ev, s')
    \<longrightarrow> get (effectiveCommand command (propOf opened ''currency'')) ''currency''
          = propOf opened ''currency''
        \<and> (\<exists>ids. processD (effectiveCommand command (propOf opened ''currency'')) ids
                    = Inr (Success ev))
        \<and> ((\<forall>c ids e. processD c ids = Inr (Success e)
                \<longrightarrow> get e ''currency'' = get c ''currency'')
           \<longrightarrow> get ev ''currency'' = propOf opened ''currency''
               \<and> propOf (depositEventOf ev) ''currency'' = propOf opened ''currency''))
   \<and> (query eventStore (accountEventsFilter (get command ''accountId'')) s = Inr (BareArray evs1)
      \<and> query eventStore (transferFromFilter (get command ''accountId'')) s = Inr (BareArray evs2)
      \<and> query eventStore (transferToFilter (get command ''accountId'')) s = Inr (BareArray evs3)
      \<and> find (isOpeningOf (get command ''accountId'')) (evs1 @ evs2 @ evs3) = Some opened
      \<and> \<not> truthy (get command ''currency'')
      \<and> withdraw_execute js eventStore process command s = Inr (Success ev, s')
    \<longrightarrow> get (effectiveCommand command (propOf opened ''currency'')) ''currency''
          = propOf opened ''currency''
        \<and> (\<exists>b ids. process (effectiveCommand command (propOf opened ''currency'')) b ids
                      = Inr (Success ev))
        \<and> ((\<forall>c b ids e. process c b ids = Inr (Success e)
                \<longrightarrow> get e ''currency'' = get c ''currency'')
           \<longrightarrow> get ev ''currency'' = propOf opened ''currency''
               \<and> propOf (withdrawEventOf ev) ''currency'' = propOf opened ''currency''))
   \<and> (query eventStore (accountEventsFilter (get command ''accountId'')) s
          = Inr (ResultRecord r1)
      \<and> query eventStore (transferFromFilter (get command ''accountId'')) s
          = Inr (ResultRecord r2)
      \<and> query eventStore (transferToFilter (get command ''accountId'')) s
          = Inr (ResultRecord r3)
      \<and> find (isOpeningOf (get command ''accountId'')) (events r1 @ events r2 @ events r3)
          = Some opened
      \<and> \<not> truthy (get command ''currency'')
      \<and> withdraw_execute2 js eventStore process command s = Inr (Success ev, s')
    \<longrightarrow> get (effectiveCommand command (propOf opened ''currency'')) ''currency''
          = propOf opened ''currency''
        \<and> (\<exists>b ids. process (effectiveCommand command (propOf opened ''currency'')) b ids
                      = Inr (Success ev))
        \<and> ((\<forall>c b ids e. process c b ids = Inr (Success e)
                \<longrightarrow> get e ''currency'' = get c ''currency'')
           \<longrightarrow> get ev ''currency'' = propOf opened ''currency''
               \<and> propOf (withdrawEventOf ev) ''currency'' = propOf opened ''currency''))"
proof -
  have copied: "get ev ''currency'' = c
                \<and> propOf (transferEventOf ev) ''currency'' = c
                \<and> propOf (depositEventOf ev) ''currency'' = c
                \<and> propOf (withdrawEventOf ev) ''currency'' = c"
    if "get (effectiveCommand command c) ''currency'' = c"
      and "get ev ''currency'' = get (effectiveCommand command c) ''currency''" for c
    using that by (simp add: event_currency)
  show ?thesis
  proof (intro conjI impI; (elim conjE)?)
    assume "\<not> truthy (get command ''currency'')"
    then show "get (effectiveCommand command c) ''currency'' = c"
      by (rule get_effectiveCommand)
  next
    assume "query eventStore (transferQueryFilter (get command ''fromAccountId'')
                (get command ''toAccountId'')) s = Inr (BareArray evs)"
      "find (isOpeningOf (get command ''fromAccountId'')) evs = Some opened"
      "buildAccountState js evs (get command ''toAccountId'') = Some toAcc"
    then show "\<exists>b. transfer_execute js eventStore process command s =
              await (process (effectiveCommand command (propOf opened ''currency'')) b
                       (map (\<lambda>e. propOf e ''transferId'')
                            (filter (\<lambda>e. isType e ''MoneyTransferred'') evs)))
                    (transferOutcome eventStore command s)"
      by (rule transfer_runs_decision)
  next
    assume "query eventStore (depositQueryFilter (get command ''accountId'')) s = Inr (BareArray evs)"
      "find (\<lambda>e. isType e ''BankAccountOpened'') evs = Some opened"
    then show "deposit_execute eventStore processD command s =
          await (processD (effectiveCommand command (propOf opened ''currency''))
                   (map (\<lambda>e. propOf e ''depositId'')
                        (filter (\<lambda>e. isType e ''MoneyDeposited'') evs)))
                (depositOutcome eventStore command s)"
      by (rule deposit_runs_decision)
  next
    assume "query eventStore (accountEventsFilter (get command ''accountId'')) s = Inr (BareArray evs1)"
      "query eventStore (transferFromFilter (get command ''accountId'')) s = Inr (BareArray evs2)"
      "query eventStore (transferToFilter (get command ''accountId'')) s = Inr (BareArray evs3)"
      "find (isOpeningOf (get command ''accountId'')) (evs1 @ evs2 @ evs3) = Some opened"
    then show "\<exists>b. withdraw_execute js eventStore process command s =
              await (process (effectiveCommand command (propOf opened ''currency'')) b
                       (map (\<lambda>e. propOf e ''withdrawalId'')
                            (filter (\<lambda>e. isType e ''MoneyWithdrawn'') evs1)))
                    (withdrawOutcome eventStore command s)"
      by (rule withdraw_runs_decision)
  next
    assume "query eventStore (accountEventsFilter (get command ''accountId'')) s
          = Inr (ResultRecord r1)"
      "query eventStore (transferFromFilter (get command ''accountId'')) s
          = Inr (ResultRecord r2)"
      "query eventStore (transferToFilter (get command ''accountId'')) s
          = Inr (ResultRecord r3)"
      "find (isOpeningOf (get command ''accountId'')) (events r1 @ events r2 @ events r3)
          = Some opened"
    then show "\<exists>b. withdraw_execute2 js eventStore process command s =
              await (process (effectiveCommand command (propOf opened ''currency'')) b
                       (map (\<lambda>e. propOf e ''withdrawalId'')
                            (filter (\<lambda>e. isType e ''MoneyWithdrawn'') (events r1))))
                    (withdrawOutcome2 eventStore command
                       (max (maxSequenceNumber r1)
                            (max (maxSequenceNumber r2) (maxSequenceNumber r3))) s)"
      by (rule withdraw2_runs_decision)
  next
    assume "query eventStore (transferQueryFilter (get command ''fromAccountId'')
                (get command ''toAccountId'')) s = Inr (BareArray evs)"
      "find (isOpeningOf (get command ''fromAccountId'')) evs = Some opened"
      "transfer_execute js eventStore process command s = Inr (Success ev, s')"
    then show "\<exists>b ids. process (effectiveCommand command (propOf opened ''currency'')) b ids
                      = Inr (Success ev)"
      by (rule transfer_decided)
  next
    assume "query eventStore (depositQueryFilter (get command ''accountId'')) s = Inr (BareArray evs)"
      "find (\<lambda>e. isType e ''BankAccountOpened'') evs = Some opened"
      "deposit_execute eventStore processD command s = Inr (Success ev, s')"
    then show "\<exists>ids. processD (effectiveCommand command (propOf opened ''currency'')) ids
                    = Inr (Success ev)"
      by (rule deposit_decided)
  next
    assume "query eventStore (accountEventsFilter (get command ''accountId'')) s = Inr (BareArray evs1)"
      "query eventStore (transferFromFilter (get command ''accountId'')) s = Inr (BareArray evs2)"
      "query eventStore (transferToFilter (get command ''accountId'')) s = Inr (BareArray evs3)"
      "find (isOpeningOf (get command ''accountId'')) (evs1 @ evs2 @ evs3) = Some opened"
      "withdraw_execute js eventStore process command s = Inr (Success ev, s')"
    then show "\<exists>b ids. process (effectiveCommand command (propOf opened ''currency'')) b ids
                      = Inr (Success ev)"
      by (rule withdraw_decided)
  next
    assume "query eventStore (accountEventsFilter (get command ''accountId'')) s
          = Inr (ResultRecord r1)"
      "query eventStore (transferFromFilter (get command ''accountId'')) s
          = Inr (ResultRecord r2)"
      "query eventStore (transferToFilter (get command ''accountId'')) s
          = Inr (ResultRecord r3)"
      "find (isOpeningOf (get command ''accountId'')) (events r1 @ events r2 @ events r3)
          = Some opened"
      "withdraw_execute2 js eventStore process command s = Inr (Success ev, s')"
    then show "\<exists>b ids. process (effectiveCommand command (propOf opened ''currency'')) b ids
                      = Inr (Success ev)"
      by (rule withdraw2_decided)
  next
    assume nc: "\<not> truthy (get command ''currency'')"
      and cp: "\<forall>c b ids e. process c b ids = Inr (Success e)
                \<longrightarrow> get e ''currency'' = get c ''currency''"
      and "query eventStore (transferQueryFilter (get command ''fromAccountId'')
                (get command ''toAccountId'')) s = Inr (BareArray evs)"
      "find (isOpeningOf (get command ''fromAccountId'')) evs = Some opened"
      "transfer_execute js eventStore process command s = Inr (Success ev, s')"
    from transfer_decided[OF this(3-5)] cp
    have "get ev ''currency''
            = get (effectiveCommand command (propOf opened ''currency'')) ''currency''"
      by blast
    from copied[OF get_effectiveCommand[OF nc] this]
    show "get ev ''currency'' = propOf opened ''currency''"
      "propOf (transferEventOf ev) ''currency'' = propOf opened ''currency''"
      by simp_all
  next
    assume nc: "\<not> truthy (get command ''currency'')"
      and cp: "\<forall>c ids e. processD c ids = Inr (Success e)
                \<longrightarrow> get e ''currency'' = get c ''currency''"
      and "query eventStore (depositQueryFilter (get command ''accountId'')) s = Inr (BareArray evs)"
      "find (\<lambda>e. isType e ''BankAccountOpened'') evs = Some opened"
      "deposit_execute eventStore processD command s = Inr (Success ev, s')"
    from deposit_decided[OF this(3-5)] cp
    have "get ev ''currency''
            = get (effectiveCommand command (propOf opened ''currency'')) ''currency''"
      by blast
    from copied[OF get_effectiveCommand[OF nc] this]
    show "get ev ''currency'' = propOf opened ''currency''"
      "propOf (depositEventOf ev) ''currency'' = propOf opened ''currency''"
      by simp_all
  next
    assume nc: "\<not> truthy (get command ''currency'')"
      and cp: "\<forall>c b ids e. process c b ids = Inr (Success e)
                \<longrightarrow> get e ''currency'' = get c ''currency''"
      and "query eventStore (accountEventsFilter (get command ''accountId'')) s = Inr (BareArray evs1)"
      "query eventStore (transferFromFilter (get command ''accountId'')) s = Inr (BareArray evs2)"
      "query eventStore (transferToFilter (get command ''accountId'')) s = Inr (BareArray evs3)"
      "find (isOpeningOf (get command ''accountId'')) (evs1 @ evs2 @ evs3) = Some opened"
      "withdraw_execute js eventStore process command s = Inr (Success ev, s')"
    from withdraw_decided[OF this(3-7)] cp
    have "get ev ''currency''
            = get (effectiveCommand command (propOf opened ''currency'')) ''currency''"
      by blast
    from copied[OF get_effectiveCommand[OF nc] this]
    show "get ev ''currency'' = propOf opened ''currency''"
      "propOf (withdrawEventOf ev) ''currency'' = propOf opened ''currency''"
      by simp_all
  next
    assume nc: "\<not> truthy (get command ''currency'')"
      and cp: "\<forall>c b ids e. process c b ids = Inr (Success e)
                \<longrightarrow> get e ''currency'' = get c ''currency''"
      and "query eventStore (accountEventsFilter (get command ''accountId'')) s
          = Inr (ResultRecord r1)"
      "query eventStore (transferFromFilter (get command ''accountId'')) s
          = Inr (ResultRecord r2)"
      "query eventStore (transferToFilter (get command ''accountId'')) s
          = Inr (ResultRecord r3)"
      "find (isOpeningOf (get command ''accountId'')) (events r1 @ events r2 @ events r3)
          = Some opened"
      "withdraw_execute2 js eventStore process command s = Inr (Success ev, s')"
    from withdraw2_decided[OF this(3-7)] cp
    have "get ev ''currency''
            = get (effectiveCommand command (propOf opened ''currency'')) ''currency''"
      by blast
    from copied[OF get_effectiveCommand[OF nc] this]
    show "get ev ''currency'' = propOf opened ''currency''"
      "propOf (withdrawEventOf ev) ''currency'' = propOf opened ''currency''"
      by simp_all
  qed (simp_all add: get_effectiveCommand)
qed

lemma get_Cons: "get ((k, v) # rest) k' = (if k' = k then Some v else get rest k')"
  by (simp add: get_def)

lemma accept_copies_currency:
  "\<forall>c b ids e. acceptTransfer c b ids = Inr (Success e)
      \<longrightarrow> get e ''currency'' = get c ''currency''"
  "\<forall>c ids e. acceptDeposit c ids = Inr (Success e)
      \<longrightarrow> get e ''currency'' = get c ''currency''"
  "\<forall>c b ids e. acceptWithdraw c b ids = Inr (Success e)
      \<longrightarrow> get e ''currency'' = get c ''currency''"
  by (auto simp: acceptTransfer_def acceptDeposit_def acceptWithdraw_def get_Cons get_objLit
        split: option.splits)

theorem missing_currency_taken_from_account_witness:
  "\<not> truthy (get depositCommand ''currency'')
   \<and> \<not> truthy (get transferCommand ''currency'')
   \<and> \<not> truthy (get withdrawCommand ''currency'')
   \<and> propOf (toEvent (hd sampleLog)) ''currency'' = Some (JStr ''USD'')
   \<and> deposit_execute (arrayStore 0) acceptDeposit depositCommand sampleLog
     = Inr (Success [(''type'', JStr ''MoneyDeposited''), (''accountId'', JStr ''A''),
                     (''amount'', JNum 10), (''currency'', JStr ''USD''),
                     (''depositId'', JStr ''d2''), (''timestamp'', JNum 0)],
            sampleLog @
            [\<lparr>sequence_number = 7, occurred_at = 0, event_type = ''MoneyDeposited'',
              payload = [(''accountId'', JStr ''A''), (''amount'', JNum 10),
                         (''currency'', JStr ''USD''), (''depositId'', JStr ''d2''),
                         (''timestamp'', JNum 0)],
              metadata = []\<rparr>])
   \<and> get [(''type'', JStr ''MoneyDeposited''), (''accountId'', JStr ''A''),
           (''amount'', JNum 10), (''currency'', JStr ''USD''),
           (''depositId'', JStr ''d2''), (''timestamp'', JNum 0)] ''currency''
     = propOf (toEvent (hd sampleLog)) ''currency''
   \<and> transfer_execute doubles (arrayStore 0) acceptTransfer transferCommand sampleLog
     = Inr (Success [(''type'', JStr ''MoneyTransferred''), (''fromAccountId'', JStr ''A''),
                     (''toAccountId'', JStr ''B''), (''amount'', JNum 100),
                     (''currency'', JStr ''USD''), (''transferId'', JStr ''t3''),
                     (''timestamp'', JNum 0)],
            sampleLog @
            [\<lparr>sequence_number = 7, occurred_at = 0, event_type = ''MoneyTransferred'',
              payload = [(''fromAccountId'', JStr ''A''), (''toAccountId'', JStr ''B''),
                         (''amount'', JNum 100), (''currency'', JStr ''USD''),
                         (''transferId'', JStr ''t3''), (''timestamp'', JNum 0)],
              metadata = []\<rparr>])
   \<and> get [(''type'', JStr ''MoneyTransferred''), (''fromAccountId'', JStr ''A''),
           (''toAccountId'', JStr ''B''), (''amount'', JNum 100),
           (''currency'', JStr ''USD''), (''transferId'', JStr ''t3''),
           (''timestamp'', JNum 0)] ''currency''
     = propOf (toEvent (hd sampleLog)) ''currency''
   \<and> withdraw_execute doubles (arrayStore 0) acceptWithdraw withdrawCommand sampleLog
     = Inr (Success [(''type'', JStr ''MoneyWithdrawn''), (''accountId'', JStr ''A''),
                     (''amount'', JNum 10), (''currency'', JStr ''USD''),
                     (''withdrawalId'', JStr ''w2''), (''timestamp'', JNum 0)],
            sampleLog @
            [\<lparr>sequence_number = 7, occurred_at = 0, event_type = ''MoneyWithdrawn'',
              payload = [(''accountId'', JStr ''A''), (''amount'', JNum 10),
                         (''currency'', JStr ''USD''), (''withdrawalId'', JStr ''w2''),
                         (''timestamp'', JNum 0)],
              metadata = []\<rparr>])
   \<and> withdraw_execute2 doubles (recordStore 0) acceptWithdraw withdrawCommand sampleLog
     = Inr (Success [(''type'', JStr ''MoneyWithdrawn''), (''accountId'', JStr ''A''),
                     (''amount'', JNum 10), (''currency'', JStr ''USD''),
                     (''withdrawalId'', JStr ''w2''), (''timestamp'', JNum 0)],
            sampleLog @
            [\<lparr>sequence_number = 7, occurred_at = 0, event_type = ''MoneyWithdrawn'',
              payload = [(''accountId'', JStr ''A''), (''amount'', JNum 10),
                         (''currency'', JStr ''USD''), (''withdrawalId'', JStr ''w2''),
                         (''timestamp'', JNum 0)],
              metadata = []\<rparr>])
   \<and> get [(''type'', JStr ''MoneyWithdrawn''), (''accountId'', JStr ''A''),
           (''amount'', JNum 10), (''currency'', JStr ''USD''),
           (''withdrawalId'', JStr ''w2''), (''timestamp'', JNum 0)] ''currency''
     = propOf (toEvent (hd sampleLog)) ''currency''"
proof -
  let ?A = "Some (JStr ''A'')" and ?B = "Some (JStr ''B'')"
  let ?arr = "\<lambda>F. map toEvent (selectRows F sampleLog)"
  let ?rec = "\<lambda>F. \<lparr>events = map toEvent (selectRows F sampleLog),
                      maxSequenceNumber = maxSeq F sampleLog\<rparr>"
  let ?dev = "[(''type'', JStr ''MoneyDeposited''), (''accountId'', JStr ''A''),
               (''amount'', JNum 10), (''currency'', JStr ''USD''),
               (''depositId'', JStr ''d2''), (''timestamp'', JNum 0)]"
  let ?drow = "\<lparr>sequence_number = 7, occurred_at = 0, event_type = ''MoneyDeposited'',
              payload = [(''accountId'', JStr ''A''), (''amount'', JNum 10),
                         (''currency'', JStr ''USD''), (''depositId'', JStr ''d2''),
                         (''timestamp'', JNum 0)],
              metadata = []\<rparr>"
  let ?tev = "[(''type'', JStr ''MoneyTransferred''), (''fromAccountId'', JStr ''A''),
               (''toAccountId'', JStr ''B''), (''amount'', JNum 100),
               (''currency'', JStr ''USD''), (''transferId'', JStr ''t3''),
               (''timestamp'', JNum 0)]"
  let ?trow = "\<lparr>sequence_number = 7, occurred_at = 0, event_type = ''MoneyTransferred'',
              payload = [(''fromAccountId'', JStr ''A''), (''toAccountId'', JStr ''B''),
                         (''amount'', JNum 100), (''currency'', JStr ''USD''),
                         (''transferId'', JStr ''t3''), (''timestamp'', JNum 0)],
              metadata = []\<rparr>"
  let ?wev = "[(''type'', JStr ''MoneyWithdrawn''), (''accountId'', JStr ''A''),
               (''amount'', JNum 10), (''currency'', JStr ''USD''),
               (''withdrawalId'', JStr ''w2''), (''timestamp'', JNum 0)]"
  let ?wrow = "\<lparr>sequence_number = 7, occurred_at = 0, event_type = ''MoneyWithdrawn'',
              payload = [(''accountId'', JStr ''A''), (''amount'', JNum 10),
                         (''currency'', JStr ''USD''), (''withdrawalId'', JStr ''w2''),
                         (''timestamp'', JNum 0)],
              metadata = []\<rparr>"
  note c10 = missing_currency_taken_from_account
  have nc: "\<not> truthy (get depositCommand ''currency'')"
    "\<not> truthy (get transferCommand ''currency'')"
    "\<not> truthy (get withdrawCommand ''currency'')"
    by (simp_all add: command_defs get_def)
  have ids: "get depositCommand ''accountId'' = ?A" "get withdrawCommand ''accountId'' = ?A"
    "get transferCommand ''fromAccountId'' = ?A" "get transferCommand ''toAccountId'' = ?B"
    by (simp_all add: command_defs get_def)
  have cur: "propOf (toEvent (hd sampleLog)) ''currency'' = Some (JStr ''USD'')"
    by (simp add: slice_eval)

  have dq: "query (arrayStore 0) (depositQueryFilter (get depositCommand ''accountId'')) sampleLog
              = Inr (BareArray (?arr (depositQueryFilter ?A)))"
    by (simp add: ids query_arrayStore slice_filters_good)
  have dop: "find (\<lambda>e. isType e ''BankAccountOpened'') (?arr (depositQueryFilter ?A))
              = Some (toEvent (hd sampleLog))"
    by (simp add: slice_eval)
  have dex: "deposit_execute (arrayStore 0) acceptDeposit depositCommand sampleLog
              = Inr (Success ?dev, sampleLog @ [?drow])"
    by (simp add: deposit_execute_def state_defs query_arrayStore slice_filters_good
          slice_eval command_defs depositEventOf_def MoneyDepositedEvent_def
          arrayStore_def storeAppend_def)
  have dep: "get ?dev ''currency'' = propOf (toEvent (hd sampleLog)) ''currency''"
    using c10[THEN conjunct2, THEN conjunct2, THEN conjunct2, THEN conjunct2, THEN conjunct2,
        THEN conjunct2, THEN conjunct1,
        rule_format, where eventStore = "arrayStore 0" and command = depositCommand
        and s = sampleLog and evs = "?arr (depositQueryFilter ?A)"
        and opened = "toEvent (hd sampleLog)" and processD = acceptDeposit and ev = ?dev
        and s' = "sampleLog @ [?drow]"]
      dq dop nc(1) accept_copies_currency(2) dex
    by blast

  have tq: "query (arrayStore 0) (transferQueryFilter (get transferCommand ''fromAccountId'')
              (get transferCommand ''toAccountId'')) sampleLog
              = Inr (BareArray (?arr (transferQueryFilter ?A ?B)))"
    by (simp add: ids query_arrayStore slice_filters_good)
  have top: "find (isOpeningOf (get transferCommand ''fromAccountId''))
               (?arr (transferQueryFilter ?A ?B)) = Some (toEvent (hd sampleLog))"
    by (simp add: ids) (simp add: slice_eval)
  have tex: "transfer_execute doubles (arrayStore 0) acceptTransfer transferCommand sampleLog
     = Inr (Success ?tev, sampleLog @ [?trow])"
    by (simp add: transfer_execute_def state_defs query_arrayStore slice_filters_good
          slice_eval command_defs transferEventOf_def MoneyTransferredEvent_def
          arrayStore_def storeAppend_def)
  have tra: "get ?tev ''currency'' = propOf (toEvent (hd sampleLog)) ''currency''"
    using c10[THEN conjunct2, THEN conjunct2, THEN conjunct2, THEN conjunct2, THEN conjunct2,
        THEN conjunct1,
        rule_format, where eventStore = "arrayStore 0" and command = transferCommand
        and s = sampleLog and evs = "?arr (transferQueryFilter ?A ?B)" and js = doubles
        and opened = "toEvent (hd sampleLog)" and process = acceptTransfer and ev = ?tev
        and s' = "sampleLog @ [?trow]"]
      tq top nc(2) accept_copies_currency(1) tex
    by blast

  have wq: "query (arrayStore 0) (accountEventsFilter (get withdrawCommand ''accountId'')) sampleLog
              = Inr (BareArray (?arr (accountEventsFilter ?A)))"
    "query (arrayStore 0) (transferFromFilter (get withdrawCommand ''accountId'')) sampleLog
              = Inr (BareArray (?arr (transferFromFilter ?A)))"
    "query (arrayStore 0) (transferToFilter (get withdrawCommand ''accountId'')) sampleLog
              = Inr (BareArray (?arr (transferToFilter ?A)))"
    by (simp_all add: ids query_arrayStore slice_filters_good)
  have wop: "find (isOpeningOf (get withdrawCommand ''accountId''))
               (?arr (accountEventsFilter ?A) @ ?arr (transferFromFilter ?A)
                  @ ?arr (transferToFilter ?A)) = Some (toEvent (hd sampleLog))"
    by (simp add: ids) (simp add: slice_eval)
  have wex: "withdraw_execute doubles (arrayStore 0) acceptWithdraw withdrawCommand sampleLog
     = Inr (Success ?wev, sampleLog @ [?wrow])"
    by (simp add: withdraw_execute_def state_defs query_arrayStore slice_filters_good
          slice_eval command_defs withdrawEventOf_def MoneyWithdrawnEvent_def
          arrayStore_def storeAppend_def)
  have wit: "get ?wev ''currency'' = propOf (toEvent (hd sampleLog)) ''currency''"
    using c10[THEN conjunct2, THEN conjunct2, THEN conjunct2, THEN conjunct2, THEN conjunct2,
        THEN conjunct2, THEN conjunct2, THEN conjunct1,
        rule_format, where eventStore = "arrayStore 0" and command = withdrawCommand
        and s = sampleLog and ?evs1.0 = "?arr (accountEventsFilter ?A)"
        and ?evs2.0 = "?arr (transferFromFilter ?A)"
        and ?evs3.0 = "?arr (transferToFilter ?A)" and js = doubles
        and opened = "toEvent (hd sampleLog)" and process = acceptWithdraw and ev = ?wev
        and s' = "sampleLog @ [?wrow]"]
      wq wop nc(3) accept_copies_currency(3) wex
    by blast

  have vq: "query (recordStore 0) (accountEventsFilter (get withdrawCommand ''accountId'')) sampleLog
              = Inr (ResultRecord (?rec (accountEventsFilter ?A)))"
    "query (recordStore 0) (transferFromFilter (get withdrawCommand ''accountId'')) sampleLog
              = Inr (ResultRecord (?rec (transferFromFilter ?A)))"
    "query (recordStore 0) (transferToFilter (get withdrawCommand ''accountId'')) sampleLog
              = Inr (ResultRecord (?rec (transferToFilter ?A)))"
    by (simp_all add: ids query_recordStore slice_filters_good)
  have vop: "find (isOpeningOf (get withdrawCommand ''accountId''))
               (events (?rec (accountEventsFilter ?A)) @ events (?rec (transferFromFilter ?A))
                  @ events (?rec (transferToFilter ?A))) = Some (toEvent (hd sampleLog))"
    by (simp add: ids) (simp add: slice_eval)
  have vex: "withdraw_execute2 doubles (recordStore 0) acceptWithdraw withdrawCommand sampleLog
     = Inr (Success ?wev, sampleLog @ [?wrow])"
    by (simp add: withdraw_execute2_def state_defs query_recordStore slice_filters_good
          slice_eval command_defs withdrawEventOf_def MoneyWithdrawnEvent_def
          recordStore_def storeAppend_def)
  have wit2: "get ?wev ''currency'' = propOf (toEvent (hd sampleLog)) ''currency''"
    using c10[THEN conjunct2, THEN conjunct2, THEN conjunct2, THEN conjunct2, THEN conjunct2,
        THEN conjunct2, THEN conjunct2, THEN conjunct2,
        rule_format, where eventStore = "recordStore 0" and command = withdrawCommand
        and s = sampleLog and ?r1.0 = "?rec (accountEventsFilter ?A)"
        and ?r2.0 = "?rec (transferFromFilter ?A)"
        and ?r3.0 = "?rec (transferToFilter ?A)" and js = doubles
        and opened = "toEvent (hd sampleLog)" and process = acceptWithdraw and ev = ?wev
        and s' = "sampleLog @ [?wrow]"]
      vq vop nc(3) accept_copies_currency(3) vex
    by blast
  from nc cur dex dep tex tra wex vex wit wit2 show ?thesis by simp
qed

end
